theory Spec2Isabelle
  imports Complex_Main
begin

section \<open>Strings\<close>

text \<open>
  Python strings are modelled as \<open>string\<close> (a list of characters). Every literal the
  interpreter compares against is ASCII, and \<open>str.lower\<close> is modelled on the ASCII
  letters; all other characters are left as they are.
\<close>

definition ascii_uppercase :: string where
  "ascii_uppercase = ''ABCDEFGHIJKLMNOPQRSTUVWXYZ''"

definition ascii_lowercase :: string where
  "ascii_lowercase = ''abcdefghijklmnopqrstuvwxyz''"

definition lower_char :: "char \<Rightarrow> char" where
  "lower_char c = (case map_of (zip ascii_uppercase ascii_lowercase) c of
                     Some d \<Rightarrow> d
                   | None \<Rightarrow> c)"

text \<open>\<open>s.lower()\<close>\<close>

definition lower :: "string \<Rightarrow> string" where
  "lower s = map lower_char s"

text \<open>\<open>s.startswith(p)\<close>\<close>

fun startswith :: "string \<Rightarrow> string \<Rightarrow> bool" where
  "startswith s [] = True"
| "startswith [] (p # ps) = False"
| "startswith (c # cs) (p # ps) = (c = p \<and> startswith cs ps)"

text \<open>\<open>p in s\<close> for two strings: \<open>p\<close> occurs in \<open>s\<close> as a contiguous block.\<close>

fun str_in :: "string \<Rightarrow> string \<Rightarrow> bool" where
  "str_in p [] = (p = [])"
| "str_in p (c # cs) = (startswith (c # cs) p \<or> str_in p cs)"

text \<open>Truthiness of a value that is \<open>None\<close> or a string: \<open>None\<close> and \<open>""\<close> are falsy.\<close>

fun truthy :: "string option \<Rightarrow> bool" where
  "truthy None = False"
| "truthy (Some s) = (s \<noteq> [])"

section \<open>Values exchanged with the collaborators\<close>

text \<open>
  A raised exception: the name of its class and the text \<open>str(exception)\<close> gives.
\<close>

datatype exn = Exn (exn_class: string) (exn_str: string)

text \<open>
  The classes of Python that derive from \<open>BaseException\<close> without deriving from
  \<open>Exception\<close>. An exception of one of them passes every \<open>except Exception\<close>.
\<close>

definition base_only :: "string list" where
  "base_only = [''BaseException'', ''SystemExit'', ''KeyboardInterrupt'', ''GeneratorExit'']"

definition is_Exception :: "exn \<Rightarrow> bool" where
  "is_Exception e = (exn_class e \<notin> set base_only)"

datatype 'a result = Return 'a | Raise exn

text \<open>The shape of a completion response, as far as subscripting can tell.\<close>

datatype json =
    JNone
  | JStr string
  | JInt int
  | JList "json list"
  | JDict "(string \<times> json) list"

text \<open>\<open>v[key]\<close> for a string key.\<close>

fun subscript_key :: "json \<Rightarrow> string \<Rightarrow> exn + json" where
  "subscript_key (JDict kvs) k =
     (case map_of kvs k of
        None \<Rightarrow> Inl (Exn ''KeyError'' k)
      | Some v \<Rightarrow> Inr v)"
| "subscript_key JNone k = Inl (Exn ''TypeError'' ''object is not subscriptable'')"
| "subscript_key (JInt n) k = Inl (Exn ''TypeError'' ''object is not subscriptable'')"
| "subscript_key (JStr s) k = Inl (Exn ''TypeError'' ''string indices must be integers'')"
| "subscript_key (JList xs) k = Inl (Exn ''TypeError'' ''list indices must be integers'')"

text \<open>\<open>v[0]\<close>\<close>

fun subscript_zero :: "json \<Rightarrow> exn + json" where
  "subscript_zero (JList []) = Inl (Exn ''IndexError'' ''list index out of range'')"
| "subscript_zero (JList (x # xs)) = Inr x"
| "subscript_zero (JStr []) = Inl (Exn ''IndexError'' ''string index out of range'')"
| "subscript_zero (JStr (c # cs)) = Inr (JStr [c])"
| "subscript_zero (JDict kvs) = Inl (Exn ''KeyError'' ''0'')"
| "subscript_zero JNone = Inl (Exn ''TypeError'' ''object is not subscriptable'')"
| "subscript_zero (JInt n) = Inl (Exn ''TypeError'' ''object is not subscriptable'')"

text \<open>The keyword arguments of one call of \<open>completion\<close>.\<close>

record request =
  req_model :: string
  req_messages :: "(string \<times> string option) list"
  req_temperature :: real
  req_max_tokens :: int
  req_api_base :: "string option"
  req_custom_llm_provider :: "string option"

section \<open>Observable events\<close>

text \<open>
  Every call that leaves the interpreter object is recorded, in program order, with its
  arguments. Calls of the logger are not recorded: the logging subsystem is outside the
  model, and only the evaluation of a logged expression is kept where it can raise.
\<close>

datatype event =
    Input string
  | Print string
  | Print_exc exn
  | Display_code string
  | Display_markdown_message string
  | Os_remove string
  | Subprocess_call "string list" bool
  | Environ_set string string
  | Completion request
  | Extract_code json string string bool
  | Save_code string string
  | Execute_script string string
  | Execute_command string
  | Execute_code string string
  | Extract_package_name string string
  | Install_package string string
  | Save_history_json string string string string string string string

section \<open>The interpreter object and its world\<close>

text \<open>
  The fields of \<open>Interpreter\<close> keep their names. The world the object acts on is part
  of the same record: the lines still to be read from standard input, the regular files
  that exist, the files \<open>os.remove\<close> is refused on, and the events so far.
\<close>

record state =
  INTERPRETER_LANGUAGE :: string
  SAVE_CODE :: bool
  EXECUTE_CODE :: bool
  DISPLAY_CODE :: bool
  INTERPRRETER_MODEL :: string
  CODE_MODE :: bool
  SCRIPT_MODE :: bool
  COMMAND_MODE :: bool
  history :: "(string \<times> string) list"
  config_values :: "(string \<times> string) list option"
  system_message :: string
  stdin :: "string list"
  files :: "string set"
  undeletable :: "string set"
  trace :: "event list"

text \<open>A method: it returns a value or raises, and leaves a new state.\<close>

type_synonym 'a prog = "state \<Rightarrow> 'a result \<times> state"

text \<open>
  A collaborator outside the object (the completion transport, the code runners, the
  package installer, the history store, a subprocess): it returns or raises, and may
  create or delete files.
\<close>

type_synonym 'a ext = "string set \<Rightarrow> 'a result \<times> string set"

record env =
  platform_system :: string
  get_os_platform :: "string \<times> string"
  strftime_localtime :: string
  py_float :: "string \<Rightarrow> real option"
  py_int :: "string \<Rightarrow> int option"
  subprocess_call :: "string list \<Rightarrow> bool \<Rightarrow> int ext"
  completion :: "request \<Rightarrow> json ext"
  ci_extract_code :: "json \<Rightarrow> string \<Rightarrow> string \<Rightarrow> bool \<Rightarrow> string option ext"
  ci_save_code :: "string \<Rightarrow> string \<Rightarrow> unit ext"
  ci_execute_script :: "string \<Rightarrow> string \<Rightarrow> (string option \<times> string option) ext"
  ci_execute_command :: "string \<Rightarrow> (string option \<times> string option) ext"
  ci_execute_code :: "string \<Rightarrow> string \<Rightarrow> (string option \<times> string option) ext"
  pi_extract_package_name :: "string \<Rightarrow> string \<Rightarrow> string option ext"
  pi_install_package :: "string \<Rightarrow> string \<Rightarrow> unit ext"
  um_save_history_json ::
    "string \<Rightarrow> string \<Rightarrow> string \<Rightarrow> string \<Rightarrow> string \<Rightarrow> string \<Rightarrow> string \<Rightarrow> unit ext"

subsection \<open>Sequencing\<close>

definition ret :: "'a \<Rightarrow> 'a prog" where
  "ret x = (\<lambda>s. (Return x, s))"

definition raise :: "exn \<Rightarrow> 'a prog" where
  "raise e = (\<lambda>s. (Raise e, s))"

text \<open>Statement after statement: an exception of the first skips the second.\<close>

definition bind :: "'a prog \<Rightarrow> ('a \<Rightarrow> 'b prog) \<Rightarrow> 'b prog" where
  "bind m f = (\<lambda>s. case m s of
                      (Return x, s') \<Rightarrow> f x s'
                    | (Raise e, s') \<Rightarrow> (Raise e, s'))"

text \<open>
  \<open>try: m except Exception as e: h e\<close>. An exception outside the class
  \<open>Exception\<close> is not handled.
\<close>

definition try_except :: "'a prog \<Rightarrow> (exn \<Rightarrow> 'a prog) \<Rightarrow> 'a prog" where
  "try_except m h = (\<lambda>s. case m s of
                            (Return x, s') \<Rightarrow> (Return x, s')
                          | (Raise e, s') \<Rightarrow> if is_Exception e then h e s' else (Raise e, s'))"

text \<open>A value or an exception computed without touching the state.\<close>

definition lift :: "exn + 'a \<Rightarrow> 'a prog" where
  "lift v = (case v of Inl e \<Rightarrow> raise e | Inr x \<Rightarrow> ret x)"

text \<open>Reading a field, and running a method whose text depends on the fields.\<close>

definition reading :: "(state \<Rightarrow> 'a) \<Rightarrow> ('a \<Rightarrow> 'b prog) \<Rightarrow> 'b prog" where
  "reading field f = (\<lambda>s. f (field s) s)"

text \<open>An output that cannot fail, such as printing.\<close>

definition emit :: "event \<Rightarrow> unit prog" where
  "emit ev = (\<lambda>s. (Return (), s\<lparr>trace := trace s @ [ev]\<rparr>))"

text \<open>A call of a collaborator: the event is recorded, the files are handed over.\<close>

definition call :: "event \<Rightarrow> 'a ext \<Rightarrow> 'a prog" where
  "call ev f = (\<lambda>s. case f (files s) of
                      (r, fs) \<Rightarrow> (r, s\<lparr>files := fs, trace := trace s @ [ev]\<rparr>))"

text \<open>\<open>input(prompt)\<close>: the next line of standard input, \<open>EOFError\<close> when there is none.\<close>

definition input :: "string \<Rightarrow> string prog" where
  "input prompt = (\<lambda>s. case stdin s of
                        [] \<Rightarrow> (Raise (Exn ''EOFError'' ''EOF when reading a line''),
                               s\<lparr>trace := trace s @ [Input prompt]\<rparr>)
                      | line # rest \<Rightarrow> (Return line,
                               s\<lparr>stdin := rest, trace := trace s @ [Input prompt]\<rparr>))"

text \<open>The events a method adds when it is run from a state.\<close>

definition emitted :: "'a prog \<Rightarrow> state \<Rightarrow> event list" where
  "emitted m s = drop (length (trace s)) (trace (snd (m s)))"

section \<open>The methods of \<open>Interpreter\<close>\<close>

subsection \<open>Resource files\<close>

text \<open>
  \<open>_open_resource_file\<close>: an existing file is handed to the opener of the platform;
  whatever the opener raises is shown to the user and goes no further.
\<close>

definition open_resource_file :: "env \<Rightarrow> string \<Rightarrow> unit prog" where
  "open_resource_file env filename =
     try_except
       (reading files (\<lambda>fs.
          if filename \<in> fs then
            (if platform_system env = ''Windows'' then
               bind (call (Subprocess_call [''start'', filename] True)
                          (subprocess_call env [''start'', filename] True)) (\<lambda>_. ret ())
             else if platform_system env = ''Darwin'' then
               bind (call (Subprocess_call [''open'', filename] False)
                          (subprocess_call env [''open'', filename] False)) (\<lambda>_. ret ())
             else if platform_system env = ''Linux'' then
               bind (call (Subprocess_call [''xdg-open'', filename] False)
                          (subprocess_call env [''xdg-open'', filename] False)) (\<lambda>_. ret ())
             else ret ())
          else ret ()))
       (\<lambda>exception.
          emit (Display_markdown_message (''Error in opening files: '' @ exn_str exception)))"

text \<open>
  \<open>os.remove\<close>: it raises for a file that is not there and for a file the process may
  not delete, and deletes the file otherwise.
\<close>

definition os_remove :: "string \<Rightarrow> unit prog" where
  "os_remove file = (\<lambda>s.
     if file \<notin> files s then
       (Raise (Exn ''FileNotFoundError'' file), s\<lparr>trace := trace s @ [Os_remove file]\<rparr>)
     else if file \<in> undeletable s then
       (Raise (Exn ''PermissionError'' file), s\<lparr>trace := trace s @ [Os_remove file]\<rparr>)
     else
       (Return (), s\<lparr>files := files s - {file}, trace := trace s @ [Os_remove file]\<rparr>))"

text \<open>The body of the loop of \<open>_clean_responses\<close>, over the files still to visit.\<close>

fun remove_files :: "string list \<Rightarrow> unit prog" where
  "remove_files [] = ret ()"
| "remove_files (file # rest) =
     bind (try_except
             (reading files (\<lambda>fs. if file \<in> fs then os_remove file else ret ()))
             (\<lambda>e. emit (Print (''Error in removing '' @ file @ '': '' @ exn_str e))))
          (\<lambda>_. remove_files rest)"

definition files_to_remove :: "string list" where
  "files_to_remove = [''graph.png'', ''chart.png'', ''table.md'']"

definition clean_responses :: "unit prog" where
  "clean_responses = remove_files files_to_remove"

subsection \<open>The completion response\<close>

text \<open>
  \<open>_extract_content\<close>: \<open>output['choices'][0]['message']['content']\<close>. The handler of
  \<open>KeyError\<close> and \<open>TypeError\<close> logs and raises the exception again, so every failure of
  a subscript leaves the method.
\<close>

definition extract_content :: "json \<Rightarrow> json prog" where
  "extract_content output =
     lift (case subscript_key output ''choices'' of
             Inl e \<Rightarrow> Inl e
           | Inr choices \<Rightarrow>
               (case subscript_zero choices of
                  Inl e \<Rightarrow> Inl e
                | Inr choice \<Rightarrow>
                    (case subscript_key choice ''message'' of
                       Inl e \<Rightarrow> Inl e
                     | Inr message \<Rightarrow> subscript_key message ''content'')))"

subsection \<open>Mode\<close>

text \<open>\<open>initialize_mode\<close>, from the value of \<open>args.mode\<close> (\<open>None\<close> when it is not given).\<close>

definition initialize_mode :: "string option \<Rightarrow> state \<Rightarrow> state" where
  "initialize_mode mode s =
     (let s1 = s\<lparr>CODE_MODE := (mode = Some ''code'')\<rparr>;
          s2 = s1\<lparr>SCRIPT_MODE := (mode = Some ''script'')\<rparr>;
          s3 = s2\<lparr>COMMAND_MODE := (mode = Some ''command'')\<rparr>
      in if \<not> SCRIPT_MODE s3 \<and> \<not> COMMAND_MODE s3 then s3\<lparr>CODE_MODE := True\<rparr> else s3)"

text \<open>The name \<open>interpreter_main\<close> gives to the active mode.\<close>

definition mode_name :: "state \<Rightarrow> string" where
  "mode_name s = (if SCRIPT_MODE s then ''Script''
                  else if COMMAND_MODE s then ''Command'' else ''Code'')"

subsection \<open>Prompt and completion\<close>

definition script_system_message :: string where
  "script_system_message = ''Please generate a well-written script that is precise, easy to understand, and compatible with the current operating system.''"

definition command_system_message :: string where
  "command_system_message = ''Please generate a single line command that is precise, easy to understand, and compatible with the current operating system.''"

definition get_prompt ::
  "state \<Rightarrow> string \<Rightarrow> (string \<times> string) list \<Rightarrow> (string \<times> string option) list" where
  "get_prompt s message chat_history =
     (let system_text =
            (if CODE_MODE s then Some (system_message s)
             else if SCRIPT_MODE s then Some script_system_message
             else if COMMAND_MODE s then Some command_system_message
             else None)
      in [(''system'', system_text),
          (''assistant'', Some ''Please generate code wrapped inside triple backticks known as codeblock.''),
          (''user'', Some message)])"

text \<open>
  The first statement of \<open>generate_text\<close>: the values of the configuration replace the
  arguments when the configuration is given and not empty. \<open>float\<close> and \<open>int\<close> raise
  \<open>ValueError\<close> on a text they cannot read.
\<close>

definition config_parameters ::
  "env \<Rightarrow> real \<Rightarrow> int \<Rightarrow> (string \<times> string) list option \<Rightarrow> exn + real \<times> int" where
  "config_parameters env temperature max_tokens cfg_values =
     (case cfg_values of
        None \<Rightarrow> Inr (temperature, max_tokens)
      | Some cfg \<Rightarrow>
          if cfg = [] then Inr (temperature, max_tokens)
          else
            (case (case map_of cfg ''temperature'' of
                     None \<Rightarrow> Inr temperature
                   | Some v \<Rightarrow>
                       (case py_float env v of
                          None \<Rightarrow> Inl (Exn ''ValueError'' (''could not convert string to float: '' @ v))
                        | Some t \<Rightarrow> Inr t)) of
               Inl e \<Rightarrow> Inl e
             | Inr t \<Rightarrow>
                 (case map_of cfg ''max_tokens'' of
                    None \<Rightarrow> Inr (t, max_tokens)
                  | Some v \<Rightarrow>
                      (case py_int env v of
                         None \<Rightarrow> Inl (Exn ''ValueError'' (''invalid literal for int() with base 10: '' @ v))
                       | Some n \<Rightarrow> Inr (t, n)))))"

definition heaven_api_base :: string where
  "heaven_api_base = ''https://heaven-gpt.haseebmir.repl.co''"

definition generate_text ::
  "env \<Rightarrow> string \<Rightarrow> (string \<times> string) list \<Rightarrow> real \<Rightarrow> int \<Rightarrow>
     (string \<times> string) list option \<Rightarrow> json prog" where
  "generate_text env message chat_history temperature max_tokens cfg_values =
     bind (lift (config_parameters env temperature max_tokens cfg_values)) (\<lambda>(temperature, max_tokens).
     reading (\<lambda>s. get_prompt s message chat_history) (\<lambda>messages.
     bind (\<lambda>s. if \<not> str_in ''huggingface/'' (INTERPRRETER_MODEL s) \<and> \<not> str_in ''gpt'' (INTERPRRETER_MODEL s)
                then (Return (), s\<lparr>INTERPRRETER_MODEL := ''huggingface/'' @ INTERPRRETER_MODEL s\<rparr>)
                else (Return (), s)) (\<lambda>_.
     reading INTERPRRETER_MODEL (\<lambda>interpreter_model.
     bind (if str_in ''gpt-3.5-turbo'' interpreter_model then
             bind (emit (Environ_set ''OPENAI_API_KEY'' ''Ignore the Key.'')) (\<lambda>_.
               (let r = \<lparr>req_model = interpreter_model, req_messages = messages,
                         req_temperature = 0.1, req_max_tokens = 2048,
                         req_api_base = Some heaven_api_base,
                         req_custom_llm_provider = Some ''openai''\<rparr>
                in call (Completion r) (completion env r)))
           else
             (let r = \<lparr>req_model = interpreter_model, req_messages = messages,
                       req_temperature = temperature, req_max_tokens = max_tokens,
                       req_api_base = None, req_custom_llm_provider = None\<rparr>
              in call (Completion r) (completion env r)))
          extract_content))))"

text \<open>The model name \<open>generate_text\<close> leaves in the object and passes on.\<close>

definition model_sent :: "string \<Rightarrow> string" where
  "model_sent m = (if \<not> str_in ''huggingface/'' m \<and> \<not> str_in ''gpt'' m then ''huggingface/'' @ m else m)"

subsection \<open>The prompt of each mode\<close>

definition handle_code_mode :: "string \<Rightarrow> string \<Rightarrow> string prog" where
  "handle_code_mode task os_name = (\<lambda>s.
     let prompt = ''Generate the code in '' @ INTERPRETER_LANGUAGE s @ '' language for this task ''
                    @ [CHR 0x27] @ task @ '' for Operating System: '' @ os_name @ [CHR 0x27] @ ''.''
     in (Return prompt, s\<lparr>history := history s @ [(task, prompt)]\<rparr>))"

definition language_map :: "(string \<times> string) list" where
  "language_map = [(''macos'', ''applescript''), (''linux'', ''bash''), (''windows'', ''powershell'')]"

definition handle_script_mode :: "string \<Rightarrow> string \<Rightarrow> string prog" where
  "handle_script_mode task os_name = (\<lambda>s.
     let language = (case map_of language_map (lower os_name) of
                       None \<Rightarrow> ''python''
                     | Some l \<Rightarrow> l);
         script_type = (if lower os_name = ''macos'' then ''Apple script''
                        else if lower os_name = ''linux'' then ''Bash Shell script''
                        else if lower os_name = ''windows'' then ''Powershell script''
                        else ''script'');
         prompt = ''\<newline>Generate '' @ script_type
                    @ '' for this prompt and make this script easy to read and understand for this task ''
                    @ [CHR 0x27] @ task @ '' for Operating System is '' @ os_name @ [CHR 0x27] @ ''.''
     in (Return prompt, s\<lparr>INTERPRETER_LANGUAGE := language\<rparr>))"

definition handle_command_mode :: "string \<Rightarrow> string \<Rightarrow> string prog" where
  "handle_command_mode task os_name =
     ret (''Generate the single terminal command for this task '' @ [CHR 0x27] @ task
            @ '' for Operating System is '' @ os_name @ [CHR 0x27] @ ''.'')"

text \<open>\<open>handle_mode\<close> returns \<open>None\<close> when no mode flag is set.\<close>

definition handle_mode :: "string \<Rightarrow> string \<Rightarrow> string option prog" where
  "handle_mode task os_name = (\<lambda>s.
     if CODE_MODE s then bind (handle_code_mode task os_name) (\<lambda>p. ret (Some p)) s
     else if SCRIPT_MODE s then bind (handle_script_mode task os_name) (\<lambda>p. ret (Some p)) s
     else if COMMAND_MODE s then bind (handle_command_mode task os_name) (\<lambda>p. ret (Some p)) s
     else ret None s)"

subsection \<open>Execution\<close>

text \<open>The body of the \<open>try\<close> of \<open>execute_code\<close>: the runner of the active mode.\<close>

definition run_by_mode :: "env \<Rightarrow> string \<Rightarrow> string \<Rightarrow> (string option \<times> string option) prog" where
  "run_by_mode env extracted_code os_name = (\<lambda>s.
     if SCRIPT_MODE s then
       call (Execute_script extracted_code os_name)
            (ci_execute_script env extracted_code os_name) s
     else if COMMAND_MODE s then
       call (Execute_command extracted_code) (ci_execute_command env extracted_code) s
     else if CODE_MODE s then
       call (Execute_code extracted_code (INTERPRETER_LANGUAGE s))
            (ci_execute_code env extracted_code (INTERPRETER_LANGUAGE s)) s
     else ret (Some [], Some []) s)"

definition execute_prompt :: string where
  "execute_prompt = ''Execute the code? (Y/N): ''"

definition execute_code :: "env \<Rightarrow> string \<Rightarrow> string \<Rightarrow> (string option \<times> string option) prog" where
  "execute_code env extracted_code os_name =
     bind (reading EXECUTE_CODE (\<lambda>auto. if auto then ret ''y'' else input execute_prompt)) (\<lambda>execute.
       if lower execute = ''y'' then
         try_except (run_by_mode env extracted_code os_name)
                    (\<lambda>exception. ret (None, Some (exn_str exception)))
       else ret (None, None))"

subsection \<open>One turn of \<open>interpreter_main\<close>\<close>

text \<open>The local variables \<open>interpreter_main\<close> fixes before its loop.\<close>

record locals =
  v_os_name :: string
  v_command_mode :: string
  v_start_sep :: string
  v_end_sep :: string
  v_skip_first_line :: bool
  v_current_time :: string

definition graph_python :: string where
  "graph_python = ''using Python use Matplotlib save the graph in file called 'graph.png'' @ [CHR 0x27]"

definition graph_javascript :: string where
  "graph_javascript = ''using JavaScript use Chart.js save the graph in file called 'graph.png'' @ [CHR 0x27]"

definition chart_python :: string where
  "chart_python = ''using Python use Plotly save the chart in file called 'chart.png'' @ [CHR 0x27]"

definition chart_javascript :: string where
  "chart_javascript = ''using JavaScript use Chart.js save the chart in file called 'chart.png'' @ [CHR 0x27]"

definition table_python :: string where
  "table_python = ''using Python use Pandas save the table in file called 'table.md'' @ [CHR 0x27]"

definition table_javascript :: string where
  "table_javascript = ''using JavaScript use DataTables save the table in file called 'table.html'' @ [CHR 0x27]"

text \<open>
  The three \<open>if\<close> statements on graphs, charts and tables: each tests the prompt as the
  statements before it left it.
\<close>

definition augment_prompt :: "string \<Rightarrow> string \<Rightarrow> string" where
  "augment_prompt language prompt =
     (let prompt1 =
            (if str_in ''graph'' (lower prompt) then
               (if language = ''python'' then prompt @ ''\<newline>'' @ graph_python
                else if language = ''javascript'' then prompt @ ''\<newline>'' @ graph_javascript
                else prompt)
             else prompt);
          prompt2 =
            (if str_in ''chart'' (lower prompt1) \<or> str_in ''plot'' (lower prompt1) then
               (if language = ''python'' then prompt1 @ ''\<newline>'' @ chart_python
                else if language = ''javascript'' then prompt1 @ ''\<newline>'' @ chart_javascript
                else prompt1)
             else prompt1);
          prompt3 =
            (if str_in ''table'' (lower prompt2) then
               (if language = ''python'' then prompt2 @ ''\<newline>'' @ table_python
                else if language = ''javascript'' then prompt2 @ ''\<newline>'' @ table_javascript
                else prompt2)
             else prompt2)
      in prompt3)"

text \<open>
  From \<open>handle_mode\<close> to the display of the extracted code. \<open>prompt.lower()\<close> raises on
  \<open>None\<close>, and so does the slice \<open>extracted_code[:50]\<close> of the logged text; past it the
  extracted code is a string.
\<close>

definition generate_code :: "env \<Rightarrow> locals \<Rightarrow> string \<Rightarrow> (string \<times> string) prog" where
  "generate_code env L task =
     bind (handle_mode task (v_os_name L)) (\<lambda>handled.
     bind clean_responses (\<lambda>_.
     bind (lift (case handled of
                   None \<Rightarrow> Inl (Exn ''AttributeError'' ''NoneType object has no attribute lower'')
                 | Some p \<Rightarrow> Inr p)) (\<lambda>rendered.
     reading INTERPRETER_LANGUAGE (\<lambda>language.
     reading history (\<lambda>chat_history.
     reading config_values (\<lambda>cfg_values.
       (let prompt = augment_prompt language rendered in
        bind (generate_text env prompt chat_history 0.1 1024 cfg_values) (\<lambda>generated_output.
        bind (call (Extract_code generated_output (v_start_sep L) (v_end_sep L) (v_skip_first_line L))
                   (ci_extract_code env generated_output (v_start_sep L) (v_end_sep L)
                      (v_skip_first_line L))) (\<lambda>extracted.
        bind (lift (case extracted of
                      None \<Rightarrow> Inl (Exn ''TypeError'' ''NoneType object is not subscriptable'')
                    | Some c \<Rightarrow> Inr c)) (\<lambda>extracted_code.
        bind (reading DISPLAY_CODE (\<lambda>display.
                if display then emit (Display_code extracted_code) else ret ())) (\<lambda>_.
        ret (prompt, extracted_code))))))))))))"

text \<open>The two branches that save the code, by language.\<close>

definition save_generated_code :: "env \<Rightarrow> locals \<Rightarrow> string \<Rightarrow> unit prog" where
  "save_generated_code env L extracted_code = (\<lambda>s.
     if INTERPRETER_LANGUAGE s = ''javascript'' \<and> SAVE_CODE s then
       call (Save_code (''output/code_generated_'' @ v_current_time L @ ''.js'') extracted_code)
            (ci_save_code env (''output/code_generated_'' @ v_current_time L @ ''.js'') extracted_code) s
     else if INTERPRETER_LANGUAGE s = ''python'' \<and> SAVE_CODE s then
       call (Save_code (''output/code_generated_'' @ v_current_time L @ ''.py'') extracted_code)
            (ci_save_code env (''output/code_generated_'' @ v_current_time L @ ''.py'') extracted_code) s
     else ret () s)"

text \<open>What the user is shown of the execution.\<close>

definition show_result :: "string option \<Rightarrow> string option \<Rightarrow> unit prog" where
  "show_result code_output code_error =
     (case code_output of
        Some out \<Rightarrow>
          if out \<noteq> [] then emit (Display_code out)
          else (case code_error of
                  Some err \<Rightarrow> if err \<noteq> [] then emit (Display_markdown_message (''Error: '' @ err)) else ret ()
                | None \<Rightarrow> ret ())
      | None \<Rightarrow>
          (case code_error of
             Some err \<Rightarrow> if err \<noteq> [] then emit (Display_markdown_message (''Error: '' @ err)) else ret ()
           | None \<Rightarrow> ret ()))"

definition error_messages :: "string list" where
  "error_messages = [''ModuleNotFound'', ''ImportError'', ''No module named'', ''Cannot find module'']"

text \<open>The installation of a package on an error of the execution.\<close>

definition install_package_on_error :: "env \<Rightarrow> string option \<Rightarrow> unit prog" where
  "install_package_on_error env code_error =
     (case code_error of
        None \<Rightarrow> ret ()
      | Some err \<Rightarrow>
          if list_ex (\<lambda>error_message. str_in error_message err) error_messages then
            reading INTERPRETER_LANGUAGE (\<lambda>language.
            bind (call (Extract_package_name err language)
                       (pi_extract_package_name env err language)) (\<lambda>package_name.
              (case package_name of
                 None \<Rightarrow> ret ()
               | Some name \<Rightarrow>
                   if name \<noteq> [] then
                     call (Install_package name language) (pi_install_package env name language)
                   else ret ())))
          else ret ())"

definition open_resource_files :: "env \<Rightarrow> unit prog" where
  "open_resource_files env =
     try_except
       (bind (open_resource_file env ''graph.png'') (\<lambda>_.
        bind (open_resource_file env ''chart.png'') (\<lambda>_.
        open_resource_file env ''table.md'')))
       (\<lambda>exception.
          emit (Display_markdown_message (''Error in opening resource files: '' @ exn_str exception)))"

text \<open>The block under \<open>if extracted_code:\<close>.\<close>

definition run_extracted_code :: "env \<Rightarrow> locals \<Rightarrow> string \<Rightarrow> unit prog" where
  "run_extracted_code env L extracted_code =
     bind (save_generated_code env L extracted_code) (\<lambda>_.
     bind (execute_code env extracted_code (v_os_name L)) (\<lambda>(code_output, code_error).
     bind (show_result code_output code_error) (\<lambda>_.
     bind (install_package_on_error env code_error) (\<lambda>_.
     open_resource_files env))))"

text \<open>The body of the loop, after the task has been read and found not to end the session.\<close>

definition loop_body :: "env \<Rightarrow> locals \<Rightarrow> string \<Rightarrow> unit prog" where
  "loop_body env L task =
     bind (generate_code env L task) (\<lambda>(prompt, extracted_code).
     bind (if extracted_code \<noteq> [] then run_extracted_code env L extracted_code else ret ()) (\<lambda>_.
     reading INTERPRETER_LANGUAGE (\<lambda>language.
     reading INTERPRRETER_MODEL (\<lambda>interpreter_model.
       call (Save_history_json task (v_command_mode L) (v_os_name L) language prompt
               extracted_code interpreter_model)
            (um_save_history_json env task (v_command_mode L) (v_os_name L) language prompt
               extracted_code interpreter_model)))))"

text \<open>
  One pass of \<open>while True\<close>: \<open>False\<close> is the \<open>break\<close>. The handler prints the traceback
  and raises the exception again.
\<close>

definition iteration :: "env \<Rightarrow> locals \<Rightarrow> bool prog" where
  "iteration env L =
     try_except
       (bind (input ''> '') (\<lambda>task.
          if lower task \<in> set [''exit'', ''quit''] then ret False
          else bind (loop_body env L task) (\<lambda>_. ret True)))
       (\<lambda>exception. bind (emit (Print_exc exception)) (\<lambda>_. raise exception))"

subsection \<open>The session\<close>

text \<open>
  The loop \<open>while True\<close>. Each pass reads a line of standard input first, so the loop
  ends on every finite input: with \<open>exit\<close> or \<open>quit\<close>, or with the exception of a pass
  (at the latest the \<open>EOFError\<close> of the exhausted input).
\<close>

function interpreter_loop :: "env \<Rightarrow> locals \<Rightarrow> unit prog" where
  "interpreter_loop env L s =
     (case iteration env L s of
        (Return continue, s') \<Rightarrow> if continue then interpreter_loop env L s' else (Return (), s')
      | (Raise e, s') \<Rightarrow> (Raise e, s'))"
  by pat_completeness auto

definition interpreter_version :: string where
  "interpreter_version = ''1.3''"

definition backticks :: string where
  "backticks = [CHR 0x60, CHR 0x60, CHR 0x60]"

text \<open>
  \<open>interpreter_main\<close>: the banner, the local variables, the loop. \<open>config_values.get\<close>
  raises when the configuration is \<open>None\<close>.
\<close>

definition interpreter_main :: "env \<Rightarrow> unit prog" where
  "interpreter_main env =
     bind (emit (Print (''Code Interpreter - v'' @ interpreter_version))) (\<lambda>_.
     reading mode_name (\<lambda>mode.
     reading INTERPRETER_LANGUAGE (\<lambda>language.
     reading INTERPRRETER_MODEL (\<lambda>interpreter_model.
     bind (emit (Display_code (''OS: '' @ [CHR 0x27] @ fst (get_os_platform env) @ [CHR 0x27]
                   @ '', Language: '' @ [CHR 0x27] @ language @ [CHR 0x27]
                   @ '', Mode: '' @ [CHR 0x27] @ mode @ [CHR 0x27]
                   @ '' Model: '' @ [CHR 0x27] @ interpreter_model @ [CHR 0x27]))) (\<lambda>_.
     bind (reading config_values (\<lambda>cfg_values.
             lift (case cfg_values of
                     None \<Rightarrow> Inl (Exn ''AttributeError'' ''NoneType object has no attribute get'')
                   | Some cfg \<Rightarrow> Inr cfg))) (\<lambda>cfg.
       interpreter_loop env
         \<lparr>v_os_name = fst (get_os_platform env),
          v_command_mode = mode,
          v_start_sep = (case map_of cfg ''start_sep'' of None \<Rightarrow> backticks | Some v \<Rightarrow> v),
          v_end_sep = (case map_of cfg ''end_sep'' of None \<Rightarrow> backticks | Some v \<Rightarrow> v),
          v_skip_first_line =
            ((case map_of cfg ''skip_first_line'' of None \<Rightarrow> ''False'' | Some v \<Rightarrow> v) = ''True''),
          v_current_time = strftime_localtime env\<rparr>))))))"

section \<open>A concrete session\<close>

text \<open>
  Collaborators and a starting state to run the methods on: a completion that answers
  with one fenced line of code, an extractor that finds it, runners that print \<open>1\<close>.
\<close>

definition demo_response :: json where
  "demo_response =
     JDict [(''choices'', JList [JDict [(''message'', JDict [(''content'', JStr ''print(1)'')])]])]"

definition demo_env :: env where
  "demo_env =
     \<lparr>platform_system = ''Linux'',
      get_os_platform = (''Linux'', ''6.1''),
      strftime_localtime = ''12:00:00'',
      py_float = (\<lambda>v. if v = ''0.7'' then Some (7 / 10) else None),
      py_int = (\<lambda>v. if v = ''256'' then Some 256 else None),
      subprocess_call = (\<lambda>args shell fs. (Return 0, fs)),
      completion = (\<lambda>r fs. (Return demo_response, fs)),
      ci_extract_code = (\<lambda>out start_sep end_sep skip fs. (Return (Some ''print(1)''), fs)),
      ci_save_code = (\<lambda>name code fs. (Return (), insert name fs)),
      ci_execute_script = (\<lambda>code os_name fs. (Return (Some ''1'', Some []), fs)),
      ci_execute_command = (\<lambda>code fs. (Return (Some ''1'', Some []), fs)),
      ci_execute_code = (\<lambda>code language fs. (Return (Some ''1'', Some []), fs)),
      pi_extract_package_name = (\<lambda>err language fs. (Return (Some ''requests''), fs)),
      pi_install_package = (\<lambda>name language fs. (Return (), fs)),
      um_save_history_json = (\<lambda>task mode os_name language prompt code model fs. (Return (), fs))\<rparr>"

definition demo_state :: state where
  "demo_state =
     \<lparr>INTERPRETER_LANGUAGE = ''python'',
      SAVE_CODE = True,
      EXECUTE_CODE = False,
      DISPLAY_CODE = False,
      INTERPRRETER_MODEL = ''codellama/CodeLlama-34b-Instruct-hf'',
      CODE_MODE = True,
      SCRIPT_MODE = False,
      COMMAND_MODE = False,
      history = [],
      config_values = Some [(''temperature'', ''0.7''), (''max_tokens'', ''256'')],
      system_message = ''You are a helpful coding assistant.'',
      stdin = [],
      files = {},
      undeletable = {},
      trace = []\<rparr>"

definition demo_locals :: locals where
  "demo_locals =
     \<lparr>v_os_name = ''Linux'',
      v_command_mode = ''Code'',
      v_start_sep = backticks,
      v_end_sep = backticks,
      v_skip_first_line = False,
      v_current_time = ''12:00:00''\<rparr>"

text \<open>Two error texts of a Python run.\<close>

definition missing_module_example :: string where
  "missing_module_example = ''ModuleNotFoundError: No module named 'requests'' @ [CHR 0x27]"

definition syntax_error_example :: string where
  "syntax_error_example = ''SyntaxError: invalid syntax''"

text \<open>A task that names a chart, a plot and a table, and a telegraph.\<close>

definition telegraph_prompt :: string where
  "telegraph_prompt = ''Plot a chart and a table for the TELEGRAPH''"




text \<open>A runner of code whose program stops on an import it cannot resolve.\<close>

definition missing_module_env :: env where
  "missing_module_env =
     demo_env\<lparr>ci_execute_code :=
       (\<lambda>code language fs. (Return (Some [], Some missing_module_example), fs))\<rparr>"

text \<open>The prompt of Code mode for the task \<open>fetch a page\<close>.\<close>

definition demo_prompt :: string where
  "demo_prompt = ''Generate the code in python language for this task 'fetch a page for Operating System: Linux'' @ [CHR 0x27] @ ''.''"

text \<open>
  The same session started with \<open>--mode script\<close> and \<open>--exec\<close>, the local variables of
  \<open>interpreter_main\<close> there, the prompt of Script mode for the task \<open>list files\<close>, and
  a user who gives this one task and leaves.
\<close>

definition script_state :: state where
  "script_state = demo_state\<lparr>CODE_MODE := False, SCRIPT_MODE := True, EXECUTE_CODE := True\<rparr>"

definition script_locals :: locals where
  "script_locals = demo_locals\<lparr>v_command_mode := ''Script''\<rparr>"

definition script_prompt :: string where
  "script_prompt = ''\<newline>Generate Bash Shell script for this prompt and make this script easy to read and understand for this task 'list files for Operating System is Linux'' @ [CHR 0x27] @ ''.''"

definition script_session :: state where
  "script_session = script_state\<lparr>stdin := [''list files'', ''exit'']\<rparr>"

section \<open>What a method leaves alone\<close>

text \<open>
  The fields no method assigns after initialization, the input, which is only ever
  consumed, the events and the history, which are only ever added to, and the history
  outside Code mode, which stays as it is.
\<close>

definition frame :: "state \<Rightarrow> state \<Rightarrow> bool" where
  "frame s s' \<longleftrightarrow>
     CODE_MODE s' = CODE_MODE s \<and> SCRIPT_MODE s' = SCRIPT_MODE s \<and> COMMAND_MODE s' = COMMAND_MODE s \<and>
     SAVE_CODE s' = SAVE_CODE s \<and> EXECUTE_CODE s' = EXECUTE_CODE s \<and> DISPLAY_CODE s' = DISPLAY_CODE s \<and>
     config_values s' = config_values s \<and> system_message s' = system_message s \<and>
     undeletable s' = undeletable s \<and> length (stdin s') \<le> length (stdin s) \<and>
     (\<exists>evs. trace s' = trace s @ evs) \<and>
     (\<exists>entries. history s' = history s @ entries) \<and>
     (CODE_MODE s \<or> history s' = history s)"

definition steady :: "'a prog \<Rightarrow> bool" where
  "steady m \<longleftrightarrow> (\<forall>s. frame s (snd (m s)))"

subsection \<open>The steps of a turn\<close>

text \<open>
  The events of a turn that have an order: saving the code, the question whether to
  run it, the run, looking up the package an error names, installing it.
\<close>

fun is_saving :: "event \<Rightarrow> bool" where
  "is_saving (Save_code name code) = True"
| "is_saving _ = False"

fun is_question :: "event \<Rightarrow> bool" where
  "is_question (Input p) = (p = execute_prompt)"
| "is_question _ = False"

fun is_execution :: "event \<Rightarrow> bool" where
  "is_execution (Execute_script code os_name) = True"
| "is_execution (Execute_command code) = True"
| "is_execution (Execute_code code language) = True"
| "is_execution _ = False"

fun is_resolution :: "event \<Rightarrow> bool" where
  "is_resolution (Extract_package_name err language) = True"
| "is_resolution _ = False"

fun is_installation :: "event \<Rightarrow> bool" where
  "is_installation (Install_package name language) = True"
| "is_installation _ = False"

text \<open>The place of an event in a turn; the other events have none.\<close>

definition stage :: "event \<Rightarrow> nat option" where
  "stage ev =
     (if is_saving ev then Some 1
      else if is_question ev then Some 2
      else if is_execution ev then Some 3
      else if is_resolution ev then Some 4
      else if is_installation ev then Some 5
      else None)"

text \<open>The places of the events of a trace, in the order of the trace.\<close>

fun stages :: "event list \<Rightarrow> nat list" where
  "stages [] = []"
| "stages (ev # evs) = (case stage ev of None \<Rightarrow> stages evs | Some k \<Rightarrow> k # stages evs)"

text \<open>
  A method that runs in the places from \<open>lo\<close> up to, not including, \<open>hi\<close>, each at most
  once and in this order; a method that has none of these events.
\<close>

definition runs_in :: "nat \<Rightarrow> nat \<Rightarrow> 'a prog \<Rightarrow> bool" where
  "runs_in lo hi m \<longleftrightarrow>
     steady m \<and>
     (\<forall>s. sorted_wrt (<) (stages (emitted m s)) \<and>
          (\<forall>k \<in> set (stages (emitted m s)). lo \<le> k \<and> k < hi))"

definition silent :: "'a prog \<Rightarrow> bool" where
  "silent m \<longleftrightarrow> steady m \<and> (\<forall>s. stages (emitted m s) = [])"

subsection \<open>Running a method step by step\<close>

lemma ret_apply: "ret x s = (Return x, s)" by (simp add: ret_def)
lemma raise_apply: "raise e s = (Raise e, s)" by (simp add: raise_def)
lemma reading_apply: "reading fld f s = f (fld s) s" by (simp add: reading_def)
lemma lift_apply: "lift v s = (case v of Inl e \<Rightarrow> (Raise e, s) | Inr x \<Rightarrow> (Return x, s))"
  by (simp add: lift_def ret_def raise_def split: sum.splits)

lemma bind_Return: "m s = (Return x, s1) \<Longrightarrow> bind m f s = f x s1"
  by (simp add: bind_def)
lemma bind_Raise: "m s = (Raise e, s1) \<Longrightarrow> bind m f s = (Raise e, s1)"
  by (simp add: bind_def)
lemma try_Return: "m s = (Return x, s1) \<Longrightarrow> try_except m h s = (Return x, s1)"
  by (simp add: try_except_def)
lemma try_Raise: "m s = (Raise e, s1) \<Longrightarrow> is_Exception e \<Longrightarrow> try_except m h s = h e s1"
  by (simp add: try_except_def)
lemma try_pass: "m s = (Raise e, s1) \<Longrightarrow> \<not> is_Exception e \<Longrightarrow> try_except m h s = (Raise e, s1)"
  by (simp add: try_except_def)

lemma frame_refl: "frame s s" by (simp add: frame_def)
lemma frame_trans:
  assumes st: "frame s t" and tu: "frame t u"
  shows "frame s u"
proof -
  obtain e1 h1 where 1: "trace t = trace s @ e1" "history t = history s @ h1"
    using st unfolding frame_def by blast
  obtain e2 h2 where 2: "trace u = trace t @ e2" "history u = history t @ h2"
    using tu unfolding frame_def by blast
  have tr: "\<exists>evs. trace u = trace s @ evs" using 1 2 by simp
  have hi: "\<exists>entries. history u = history s @ entries" using 1 2 by simp
  have cm: "CODE_MODE t = CODE_MODE s" using st by (simp add: frame_def)
  have c1: "CODE_MODE s \<or> history t = history s" using st by (simp add: frame_def)
  have c2: "CODE_MODE t \<or> history u = history t" using tu by (simp add: frame_def)
  have keep: "CODE_MODE s \<or> history u = history s"
    using cm c1 c2 by (cases "CODE_MODE s") simp_all
  have flds: "CODE_MODE u = CODE_MODE s \<and> SCRIPT_MODE u = SCRIPT_MODE s \<and>
      COMMAND_MODE u = COMMAND_MODE s \<and> SAVE_CODE u = SAVE_CODE s \<and>
      EXECUTE_CODE u = EXECUTE_CODE s \<and> DISPLAY_CODE u = DISPLAY_CODE s \<and>
      config_values u = config_values s \<and> system_message u = system_message s \<and>
      undeletable u = undeletable s \<and> length (stdin u) \<le> length (stdin s)"
    using st tu by (simp add: frame_def)
  show ?thesis unfolding frame_def using flds tr hi keep by blast
qed

lemma steadyD: "steady m \<Longrightarrow> m s = (r, s') \<Longrightarrow> frame s s'"
  unfolding steady_def by (drule spec[of _ s]) simp

lemma steady_ret: "steady (ret x)" by (simp add: steady_def ret_def frame_refl)
lemma steady_raise: "steady (raise e)" by (simp add: steady_def raise_def frame_refl)
lemma steady_lift: "steady (lift v)" by (cases v) (simp_all add: lift_def steady_ret steady_raise)
lemma steady_emit: "steady (emit ev)" by (simp add: steady_def emit_def frame_def)
lemma steady_call: "steady (call ev f)" by (simp add: steady_def call_def frame_def split: prod.splits)
lemma steady_input: "steady (input p)" by (simp add: steady_def input_def frame_def split: list.splits)

lemma steady_bind:
  assumes m: "steady m" and f: "\<And>x. steady (f x)"
  shows "steady (bind m f)"
  unfolding steady_def
proof
  fix s
  obtain r s1 where ms: "m s = (r, s1)" by (cases "m s")
  have f1: "frame s s1" using steadyD[OF m ms] .
  show "frame s (snd (bind m f s))"
  proof (cases r)
    case (Return x)
    obtain r2 s2 where fx: "f x s1 = (r2, s2)" by (cases "f x s1")
    have "frame s1 s2" using steadyD[OF f fx] .
    with f1 have "frame s s2" by (rule frame_trans)
    then show ?thesis using ms Return fx by (simp add: bind_def)
  next
    case (Raise e)
    then show ?thesis using ms f1 by (simp add: bind_def)
  qed
qed

lemma steady_try:
  assumes m: "steady m" and h: "\<And>e. steady (h e)"
  shows "steady (try_except m h)"
  unfolding steady_def
proof
  fix s
  obtain r s1 where ms: "m s = (r, s1)" by (cases "m s")
  have f1: "frame s s1" using steadyD[OF m ms] .
  show "frame s (snd (try_except m h s))"
  proof (cases r)
    case (Return x)
    then show ?thesis using ms f1 by (simp add: try_except_def)
  next
    case (Raise e)
    obtain r2 s2 where hx: "h e s1 = (r2, s2)" by (cases "h e s1")
    have "frame s1 s2" using steadyD[OF h hx] .
    with f1 have "frame s s2" by (rule frame_trans)
    then show ?thesis using ms Raise hx f1 by (simp add: try_except_def)
  qed
qed

lemma EOFError_is_Exception: "is_Exception (Exn ''EOFError'' text)"
  by (simp add: is_Exception_def base_only_def)

lemma steady_reading: "(\<And>x. steady (f x)) \<Longrightarrow> steady (reading fld f)"
  by (simp add: steady_def reading_def)
lemma steady_if: "steady p \<Longrightarrow> steady q \<Longrightarrow> steady (if c then p else q)" by simp
lemma steady_state_if: "steady p \<Longrightarrow> steady q \<Longrightarrow> steady (\<lambda>s. if c s then p s else q s)"
  by (simp add: steady_def)

lemma steady_os_remove: "steady (os_remove f)"
  by (simp add: steady_def os_remove_def frame_def)

lemma steady_open_resource_file: "steady (open_resource_file env f)"
  unfolding open_resource_file_def
  by (intro steady_try steady_reading steady_if steady_bind steady_call steady_ret steady_emit)

lemma steady_remove_files: "steady (remove_files fs)"
proof (induction fs)
  case Nil
  show ?case by (simp add: steady_ret)
next
  case (Cons f fs)
  show ?case
    unfolding remove_files.simps
    by (intro steady_bind steady_try steady_reading steady_if steady_os_remove steady_ret
          steady_emit Cons)
qed

lemma steady_clean_responses: "steady clean_responses"
  by (simp add: clean_responses_def steady_remove_files)

lemma steady_extract_content: "steady (extract_content out)"
  by (simp add: extract_content_def steady_lift)

lemma steady_update_model:
  "steady (\<lambda>s. if c s then (Return (), s\<lparr>INTERPRRETER_MODEL := f s\<rparr>) else (Return (), s))"
  by (simp add: steady_def frame_def)

lemma steady_let: "(\<And>x. steady (f x)) \<Longrightarrow> steady (let x = v in f x)" by simp
lemma steady_case_prod: "(\<And>a b. steady (f a b)) \<Longrightarrow> steady (case p of (a, b) \<Rightarrow> f a b)"
  by (cases p) simp
lemma steady_case_option:
  "steady n \<Longrightarrow> (\<And>x. steady (f x)) \<Longrightarrow> steady (case v of None \<Rightarrow> n | Some x \<Rightarrow> f x)"
  by (cases v) simp_all

lemma steady_generate_text: "steady (generate_text env msg hist t n cfg)"
  unfolding generate_text_def
  by (intro steady_bind steady_lift steady_case_prod steady_reading steady_update_model
        steady_if steady_emit steady_let steady_call steady_extract_content)

lemma steady_handle_mode: "steady (handle_mode task os)"
  by (simp add: steady_def handle_mode_def bind_def ret_def handle_code_mode_def
        handle_script_mode_def handle_command_mode_def frame_def Let_def)

lemma steady_generate_code: "steady (generate_code env L task)"
  unfolding generate_code_def
  by (intro steady_bind steady_handle_mode steady_clean_responses steady_lift steady_reading
        steady_let steady_generate_text steady_call steady_if steady_emit steady_ret)

lemma steady_save_generated_code: "steady (save_generated_code env L code)"
  unfolding save_generated_code_def
  by (intro steady_state_if steady_call steady_ret)

lemma steady_run_by_mode: "steady (run_by_mode env code os)"
  unfolding run_by_mode_def steady_def
  by (simp add: call_def ret_def frame_def split: prod.splits)

lemma steady_execute_code: "steady (execute_code env code os)"
  unfolding execute_code_def
  by (intro steady_bind steady_reading steady_if steady_ret steady_input steady_try
        steady_run_by_mode)

lemma steady_show_result: "steady (show_result out err)"
  unfolding show_result_def
  by (intro steady_case_option steady_if steady_emit steady_ret)

lemma steady_install_package_on_error: "steady (install_package_on_error env err)"
  unfolding install_package_on_error_def
  by (intro steady_case_option steady_if steady_reading steady_bind steady_call steady_ret)

lemma steady_open_resource_files: "steady (open_resource_files env)"
  unfolding open_resource_files_def
  by (intro steady_try steady_bind steady_open_resource_file steady_emit)

lemma steady_run_extracted_code: "steady (run_extracted_code env L code)"
  unfolding run_extracted_code_def
  by (intro steady_bind steady_save_generated_code steady_execute_code steady_case_prod
        steady_show_result steady_install_package_on_error steady_open_resource_files)

lemma steady_loop_body: "steady (loop_body env L task)"
  unfolding loop_body_def
  by (intro steady_bind steady_generate_code steady_case_prod steady_if
        steady_run_extracted_code steady_ret steady_reading steady_call)

lemma steady_iteration: "steady (iteration env L)"
  unfolding iteration_def
  by (intro steady_try steady_bind steady_input steady_if steady_ret steady_loop_body
        steady_emit steady_raise)

lemma handler_raises:
  "bind (emit (Print_exc e)) (\<lambda>_. raise e) s = (r, s') \<Longrightarrow> r = Raise e"
  by (auto simp: bind_def emit_def raise_def)

lemma iteration_consumes:
  assumes "iteration env L s = (Return True, s')"
  shows "length (stdin s') < length (stdin s)"
proof (cases "stdin s")
  case Nil
  then have "input ''> '' s = (Raise (Exn ''EOFError'' ''EOF when reading a line''),
      s\<lparr>trace := trace s @ [Input ''> '']\<rparr>)"
    by (simp add: input_def)
  then have "fst (iteration env L s) = Raise (Exn ''EOFError'' ''EOF when reading a line'')"
    by (simp add: iteration_def try_except_def bind_def emit_def raise_def EOFError_is_Exception)
  with assms show ?thesis by simp
next
  case (Cons line rest)
  define s1 where "s1 = s\<lparr>stdin := rest, trace := trace s @ [Input ''> '']\<rparr>"
  have inp: "input ''> '' s = (Return line, s1)"
    using Cons by (simp add: input_def s1_def)
  show ?thesis
  proof (cases "lower line \<in> set [''exit'', ''quit'']")
    case True
    then have "iteration env L s = (Return False, s1)"
      using inp by (simp add: iteration_def try_except_def bind_def ret_def)
    with assms show ?thesis by simp
  next
    case False
    obtain r2 s2 where lb: "loop_body env L line s1 = (r2, s2)" by (cases "loop_body env L line s1")
    have fr: "frame s1 s2" using steadyD[OF steady_loop_body lb] .
    show ?thesis
    proof (cases r2)
      case (Return u)
      then have "iteration env L s = (Return True, s2)"
        using inp False lb by (simp add: iteration_def try_except_def bind_def ret_def)
      with assms have "s' = s2" by simp
      with fr show ?thesis using Cons by (simp add: frame_def s1_def)
    next
      case (Raise e)
      then have "fst (iteration env L s) = Raise e"
        using inp False lb by (simp add: iteration_def try_except_def bind_def emit_def raise_def)
      with assms show ?thesis by simp
    qed
  qed
qed

subsection \<open>The loop ends\<close>

termination interpreter_loop
  apply (relation "measure (\<lambda>(env, L, s). length (stdin s))")
   apply simp
  apply (simp add: iteration_consumes)
  done

lemma steady_interpreter_loop: "steady (interpreter_loop env L)"
  unfolding steady_def
proof
  fix s
  show "frame s (snd (interpreter_loop env L s))"
  proof (induction env L s rule: interpreter_loop.induct)
    case (1 env L s)
    obtain r s1 where it: "iteration env L s = (r, s1)" by (cases "iteration env L s")
    have f1: "frame s s1" using steadyD[OF steady_iteration it] .
    show ?case
    proof (cases r)
      case (Return continue)
      show ?thesis
      proof (cases continue)
        case True
        have "frame s1 (snd (interpreter_loop env L s1))"
          using "1.IH" it Return True by simp
        with f1 have "frame s (snd (interpreter_loop env L s1))" by (rule frame_trans)
        then show ?thesis using it Return True by (simp add: interpreter_loop.simps[of env L s])
      next
        case False
        then show ?thesis using it Return f1 by (simp add: interpreter_loop.simps[of env L s])
      qed
    next
      case (Raise e)
      then show ?thesis using it f1 by (simp add: interpreter_loop.simps[of env L s])
    qed
  qed
qed

lemma steady_interpreter_main: "steady (interpreter_main env)"
  unfolding interpreter_main_def
  by (intro steady_bind steady_emit steady_reading steady_lift steady_interpreter_loop)

section \<open>Mode\<close>

text \<open>
  Claim C9. For every value of the mode argument, also one outside \<open>code\<close>, \<open>script\<close>
  and \<open>command\<close> and also a missing one, \<open>initialize_mode\<close> leaves exactly one of the
  three mode flags set: Script for \<open>script\<close>, Command for \<open>command\<close>, Code for every
  other value. No pass of the loop and no run of \<open>interpreter_main\<close> changes a mode
  flag: each ends with the flags it started with, however it ends.
\<close>

theorem one_mode_for_the_session:
  "(let s0 = initialize_mode mode s in
      (CODE_MODE s0, SCRIPT_MODE s0, COMMAND_MODE s0) =
        (if mode = Some ''script'' then (False, True, False)
         else if mode = Some ''command'' then (False, False, True)
         else (True, False, False)) \<and>
      length (filter id [CODE_MODE s0, SCRIPT_MODE s0, COMMAND_MODE s0]) = 1) \<and>
   (let s1 = snd (iteration env L s) in
      CODE_MODE s1 = CODE_MODE s \<and> SCRIPT_MODE s1 = SCRIPT_MODE s \<and> COMMAND_MODE s1 = COMMAND_MODE s) \<and>
   (let s2 = snd (interpreter_main env s) in
      CODE_MODE s2 = CODE_MODE s \<and> SCRIPT_MODE s2 = SCRIPT_MODE s \<and> COMMAND_MODE s2 = COMMAND_MODE s)"
proof -
  have a: "frame s (snd (iteration env L s))"
    using steady_iteration by (simp add: steady_def)
  have b: "frame s (snd (interpreter_main env s))"
    using steady_interpreter_main by (simp add: steady_def)
  have c: "let s0 = initialize_mode mode s in
      (CODE_MODE s0, SCRIPT_MODE s0, COMMAND_MODE s0) =
        (if mode = Some ''script'' then (False, True, False)
         else if mode = Some ''command'' then (False, False, True)
         else (True, False, False)) \<and>
      length (filter id [CODE_MODE s0, SCRIPT_MODE s0, COMMAND_MODE s0]) = 1"
    by (simp add: initialize_mode_def Let_def)
  show ?thesis using a b c by (simp add: frame_def Let_def)
qed

section \<open>Stale resource files\<close>

text \<open>
  Claim C10. In a state where none of \<open>graph.png\<close>, \<open>chart.png\<close> and \<open>table.md\<close>
  exists, \<open>_clean_responses\<close> returns without an exception, calls \<open>os.remove\<close> on
  nothing, prints nothing and leaves the state as it was; so does running it twice in a
  row.
\<close>

theorem clean_responses_without_files:
  "''graph.png'' \<notin> files s \<Longrightarrow> ''chart.png'' \<notin> files s \<Longrightarrow> ''table.md'' \<notin> files s \<Longrightarrow>
     clean_responses s = (Return (), s) \<and>
     bind clean_responses (\<lambda>_. clean_responses) s = (Return (), s) \<and>
     emitted clean_responses s = [] \<and>
     emitted (bind clean_responses (\<lambda>_. clean_responses)) s = []"
  by (simp add: clean_responses_def files_to_remove_def bind_def try_except_def reading_def
        ret_def emitted_def)

theorem clean_responses_without_files_witness:
  "''graph.png'' \<notin> files (demo_state\<lparr>files := {''notes.txt''}\<rparr>) \<and>
   ''chart.png'' \<notin> files (demo_state\<lparr>files := {''notes.txt''}\<rparr>) \<and>
   ''table.md'' \<notin> files (demo_state\<lparr>files := {''notes.txt''}\<rparr>) \<and>
   clean_responses (demo_state\<lparr>files := {''notes.txt''}\<rparr>)
     = (Return (), demo_state\<lparr>files := {''notes.txt''}\<rparr>) \<and>
   bind clean_responses (\<lambda>_. clean_responses) (demo_state\<lparr>files := {''notes.txt''}\<rparr>)
     = (Return (), demo_state\<lparr>files := {''notes.txt''}\<rparr>)"
  using clean_responses_without_files [of "demo_state\<lparr>files := {''notes.txt''}\<rparr>"]
  by (simp add: demo_state_def)

section \<open>Substrings and emitted events\<close>

lemma startswith_iff: "startswith s p \<longleftrightarrow> (\<exists>b. s = p @ b)"
  by (induction s p rule: startswith.induct) auto

lemma str_in_iff: "str_in p s \<longleftrightarrow> (\<exists>a b. s = a @ p @ b)"
proof (induction s)
  case Nil
  show ?case by simp
next
  case (Cons c cs)
  show ?case
  proof
    assume "str_in p (c # cs)"
    then consider "startswith (c # cs) p" | "str_in p cs" by auto
    then show "\<exists>a b. c # cs = a @ p @ b"
    proof cases
      case 1
      then obtain b where "c # cs = p @ b" by (auto simp: startswith_iff)
      then have "c # cs = [] @ p @ b" by simp
      then show ?thesis by blast
    next
      case 2
      then obtain a b where "cs = a @ p @ b" using Cons by auto
      then have "c # cs = (c # a) @ p @ b" by simp
      then show ?thesis by blast
    qed
  next
    assume "\<exists>a b. c # cs = a @ p @ b"
    then obtain a b where ab: "c # cs = a @ p @ b" by blast
    show "str_in p (c # cs)"
    proof (cases a)
      case Nil
      then have "startswith (c # cs) p" using ab by (auto simp: startswith_iff)
      then show ?thesis by simp
    next
      case (Cons x xs)
      then have "cs = xs @ p @ b" using ab by simp
      then have "str_in p cs" using Cons.IH by blast
      then show ?thesis by simp
    qed
  qed
qed

lemma trace_emitted: "steady m \<Longrightarrow> trace (snd (m s)) = trace s @ emitted m s"
  by (auto simp: steady_def frame_def emitted_def dest!: spec[of _ s])

lemma emitted_ret: "emitted (ret x) s = []" by (simp add: emitted_def ret_def)
lemma emitted_raise: "emitted (raise e) s = []" by (simp add: emitted_def raise_def)
lemma emitted_lift: "emitted (lift v) s = []" by (simp add: emitted_def lift_apply split: sum.splits)
lemma emitted_emit: "emitted (emit ev) s = [ev]" by (simp add: emitted_def emit_def)
lemma emitted_call: "emitted (call ev f) s = [ev]" by (simp add: emitted_def call_def split: prod.splits)
lemma emitted_input: "emitted (input p) s = [Input p]" by (simp add: emitted_def input_def split: list.splits)
lemma emitted_reading: "emitted (reading fld f) s = emitted (f (fld s)) s"
  by (simp add: emitted_def reading_def)

lemma emitted_bind:
  assumes m: "steady m" and f: "\<And>x. steady (f x)"
  shows "emitted (bind m f) s =
           emitted m s @ (case m s of (Return x, s1) \<Rightarrow> emitted (f x) s1 | (Raise e, s1) \<Rightarrow> [])"
proof -
  obtain r s1 where ms: "m s = (r, s1)" by (cases "m s")
  have t1: "trace s1 = trace s @ emitted m s" using trace_emitted[OF m, of s] ms by simp
  show ?thesis
  proof (cases r)
    case (Return x)
    have "trace (snd (f x s1)) = trace s1 @ emitted (f x) s1" using trace_emitted[OF f] .
    then have "trace (snd (bind m f s)) = trace s @ emitted m s @ emitted (f x) s1"
      using ms Return t1 by (simp add: bind_def)
    then show ?thesis using ms Return by (simp add: emitted_def)
  next
    case (Raise e)
    then have "trace (snd (bind m f s)) = trace s @ emitted m s"
      using ms t1 by (simp add: bind_def)
    then show ?thesis using ms Raise by (simp add: emitted_def)
  qed
qed

lemma emitted_try:
  assumes m: "steady m" and h: "\<And>e. steady (h e)"
  shows "emitted (try_except m h) s =
           emitted m s @ (case m s of
                            (Return x, s1) \<Rightarrow> []
                          | (Raise e, s1) \<Rightarrow> if is_Exception e then emitted (h e) s1 else [])"
proof -
  obtain r s1 where ms: "m s = (r, s1)" by (cases "m s")
  have t1: "trace s1 = trace s @ emitted m s" using trace_emitted[OF m, of s] ms by simp
  show ?thesis
  proof (cases r)
    case (Return x)
    then have "trace (snd (try_except m h s)) = trace s @ emitted m s"
      using ms t1 by (simp add: try_except_def)
    then show ?thesis using ms Return by (simp add: emitted_def)
  next
    case (Raise e)
    show ?thesis
    proof (cases "is_Exception e")
      case True
      have "trace (snd (h e s1)) = trace s1 @ emitted (h e) s1" using trace_emitted[OF h] .
      then have "trace (snd (try_except m h s)) = trace s @ emitted m s @ emitted (h e) s1"
        using ms Raise t1 True by (simp add: try_except_def)
      then show ?thesis using ms Raise True by (simp add: emitted_def)
    next
      case False
      then have "trace (snd (try_except m h s)) = trace s @ emitted m s"
        using ms Raise t1 by (simp add: try_except_def)
      then show ?thesis using ms Raise False by (simp add: emitted_def)
    qed
  qed
qed

lemma emitted_install_package_on_error:
  "emitted (install_package_on_error env code_error) s =
     (case code_error of
        None \<Rightarrow> []
      | Some err \<Rightarrow>
          if list_ex (\<lambda>error_message. str_in error_message err) error_messages then
            Extract_package_name err (INTERPRETER_LANGUAGE s) #
              (case pi_extract_package_name env err (INTERPRETER_LANGUAGE s) (files s) of
                 (Return (Some name), fs) \<Rightarrow>
                    if name \<noteq> [] then [Install_package name (INTERPRETER_LANGUAGE s)] else []
               | (Return None, fs) \<Rightarrow> []
               | (Raise e, fs) \<Rightarrow> [])
          else [])"
proof (cases code_error)
  case None
  then show ?thesis by (simp add: install_package_on_error_def emitted_ret)
next
  case (Some err)
  show ?thesis
  proof (cases "list_ex (\<lambda>error_message. str_in error_message err) error_messages")
    case False
    then show ?thesis using Some by (simp add: install_package_on_error_def emitted_ret)
  next
    case True
    have st: "\<And>language x. steady (case x of None \<Rightarrow> ret ()
                 | Some name \<Rightarrow> if name \<noteq> [] then call (Install_package name language)
                       (pi_install_package env name language) else ret ())"
      by (intro steady_case_option steady_if steady_call steady_ret)
    obtain r fs where ex: "pi_extract_package_name env err (INTERPRETER_LANGUAGE s) (files s) = (r, fs)"
      by (cases "pi_extract_package_name env err (INTERPRETER_LANGUAGE s) (files s)")
    have cs: "call (Extract_package_name err (INTERPRETER_LANGUAGE s))
                (pi_extract_package_name env err (INTERPRETER_LANGUAGE s)) s
              = (r, s\<lparr>files := fs, trace := trace s @ [Extract_package_name err (INTERPRETER_LANGUAGE s)]\<rparr>)"
      using ex by (simp add: call_def)
    have "emitted (install_package_on_error env code_error) s =
            Extract_package_name err (INTERPRETER_LANGUAGE s) #
              (case r of
                 Return package_name \<Rightarrow>
                   emitted (case package_name of None \<Rightarrow> ret ()
                            | Some name \<Rightarrow> if name \<noteq> [] then call (Install_package name (INTERPRETER_LANGUAGE s))
                                (pi_install_package env name (INTERPRETER_LANGUAGE s)) else ret ())
                     (s\<lparr>files := fs, trace := trace s @ [Extract_package_name err (INTERPRETER_LANGUAGE s)]\<rparr>)
               | Raise e \<Rightarrow> [])"
      using Some True cs
      by (simp add: install_package_on_error_def emitted_reading emitted_bind[OF steady_call st]
            emitted_call split: result.splits)
    then show ?thesis
      using Some True ex
      by (simp add: emitted_call emitted_ret split: result.splits option.splits)
  qed
qed

section \<open>Missing dependencies\<close>

text \<open>
  Claim C3. After the execution, the package installer is asked for a package name (the
  first step of the recovery) if and only if the error text is not \<open>None\<close> and contains
  one of \<open>ModuleNotFound\<close>, \<open>ImportError\<close>, \<open>No module named\<close> and
  \<open>Cannot find module\<close>, compared as they are written. The error of a missing module
  \<open>requests\<close> starts the recovery; a syntax error starts nothing.
\<close>

theorem recovery_iff_missing_dependency:
  "(\<exists>err language. Extract_package_name err language
        \<in> set (emitted (install_package_on_error env code_error) s))
     = (\<exists>err. code_error = Some err \<and>
          (str_in ''ModuleNotFound'' err \<or> str_in ''ImportError'' err \<or>
           str_in ''No module named'' err \<or> str_in ''Cannot find module'' err))
   \<and> hd (emitted (install_package_on_error env (Some missing_module_example)) s)
       = Extract_package_name missing_module_example (INTERPRETER_LANGUAGE s)
   \<and> emitted (install_package_on_error env (Some syntax_error_example)) s = []"
proof -
  have a: "(\<exists>err language. Extract_package_name err language
        \<in> set (emitted (install_package_on_error env code_error) s))
     = (\<exists>err. code_error = Some err \<and>
          (str_in ''ModuleNotFound'' err \<or> str_in ''ImportError'' err \<or>
           str_in ''No module named'' err \<or> str_in ''Cannot find module'' err))"
    unfolding emitted_install_package_on_error
    by (cases code_error) (auto simp: error_messages_def split: prod.splits result.splits option.splits)
  have b: "list_ex (\<lambda>error_message. str_in error_message missing_module_example) error_messages"
    by (simp add: error_messages_def missing_module_example_def)
  have c: "\<not> list_ex (\<lambda>error_message. str_in error_message syntax_error_example) error_messages"
    by (simp add: error_messages_def syntax_error_example_def)
  show ?thesis
    using a b c by (simp add: emitted_install_package_on_error)
qed

section \<open>The prompt and its directives\<close>

lemma lower_append: "lower (a @ b) = lower a @ lower b" by (simp add: lower_def)
lemma lower_Cons: "lower (c # b) = lower_char c # lower b" by (simp add: lower_def)
lemma lower_Nil: "lower [] = []" by (simp add: lower_def)

lemma str_in_append_left: "str_in p a \<Longrightarrow> str_in p (a @ b)"
  unfolding str_in_iff by (metis append.assoc)

lemma startswith_sep:
  "c \<notin> set p \<Longrightarrow> startswith (a @ c # b) p = startswith a p"
proof (induction a arbitrary: p)
  case Nil
  then show ?case by (cases p) auto
next
  case (Cons x a)
  then show ?case by (cases p) auto
qed

lemma str_in_sep:
  "c \<notin> set p \<Longrightarrow> p \<noteq> [] \<Longrightarrow> str_in p (a @ c # b) = (str_in p a \<or> str_in p b)"
proof (induction a)
  case Nil
  then show ?case by (cases p) auto
next
  case (Cons x a)
  have "startswith (x # a @ c # b) p = startswith (x # a) p"
    using startswith_sep[of c p "x # a" b] Cons.prems by simp
  then show ?case using Cons by auto
qed

lemma newline_lower: "lower_char CHR 0x0A = CHR 0x0A"
  by (simp add: lower_char_def ascii_uppercase_def ascii_lowercase_def)

lemma str_in_lower_line:
  "CHR 0x0A \<notin> set p \<Longrightarrow> p \<noteq> [] \<Longrightarrow>
     str_in p (lower (a @ ''\<newline>'' @ b)) = (str_in p (lower a) \<or> str_in p (lower b))"
  by (simp add: lower_append lower_Cons newline_lower str_in_sep)

lemma lower_graph_python: "lower graph_python = ''using python use matplotlib save the graph in file called 'graph.png'' @ [CHR 0x27]"
  by (simp add: graph_python_def lower_def lower_char_def ascii_uppercase_def ascii_lowercase_def)
lemma lower_graph_javascript: "lower graph_javascript = ''using javascript use chart.js save the graph in file called 'graph.png'' @ [CHR 0x27]"
  by (simp add: graph_javascript_def lower_def lower_char_def ascii_uppercase_def ascii_lowercase_def)
lemma lower_chart_python: "lower chart_python = ''using python use plotly save the chart in file called 'chart.png'' @ [CHR 0x27]"
  by (simp add: chart_python_def lower_def lower_char_def ascii_uppercase_def ascii_lowercase_def)
lemma lower_chart_javascript: "lower chart_javascript = ''using javascript use chart.js save the chart in file called 'chart.png'' @ [CHR 0x27]"
  by (simp add: chart_javascript_def lower_def lower_char_def ascii_uppercase_def ascii_lowercase_def)

lemma directives_python:
  "\<not> str_in ''chart'' (lower graph_python)" "str_in ''plot'' (lower graph_python)"
  "\<not> str_in ''table'' (lower graph_python)" "\<not> str_in ''table'' (lower chart_python)"
  by (simp_all add: lower_graph_python lower_chart_python)

lemma directives_javascript:
  "str_in ''chart'' (lower graph_javascript)"
  "\<not> str_in ''table'' (lower graph_javascript)" "\<not> str_in ''table'' (lower chart_javascript)"
  by (simp_all add: lower_graph_javascript lower_chart_javascript)

text \<open>
  What the three statements add, in terms of the prompt they start from. The directive
  for a graph itself contains \<open>plot\<close> (in Matplotlib) or \<open>chart\<close> (in Chart.js), so
  the test for a chart that follows it succeeds whenever the test for a graph did.
\<close>

lemma augment_prompt_python:
  "augment_prompt ''python'' prompt =
     prompt
     @ (if str_in ''graph'' (lower prompt) then ''\<newline>'' @ graph_python else [])
     @ (if str_in ''graph'' (lower prompt) \<or> str_in ''chart'' (lower prompt) \<or> str_in ''plot'' (lower prompt)
        then ''\<newline>'' @ chart_python else [])
     @ (if str_in ''table'' (lower prompt) then ''\<newline>'' @ table_python else [])"
proof -
  have t1: "\<And>a b. str_in ''table'' (lower (a @ ''\<newline>'' @ b)) = (str_in ''table'' (lower a) \<or> str_in ''table'' (lower b))"
    by (rule str_in_lower_line) simp_all
  have t2: "\<And>a b. str_in ''chart'' (lower (a @ ''\<newline>'' @ b)) = (str_in ''chart'' (lower a) \<or> str_in ''chart'' (lower b))"
    by (rule str_in_lower_line) simp_all
  have t3: "\<And>a b. str_in ''plot'' (lower (a @ ''\<newline>'' @ b)) = (str_in ''plot'' (lower a) \<or> str_in ''plot'' (lower b))"
    by (rule str_in_lower_line) simp_all
  show ?thesis
    unfolding augment_prompt_def Let_def
    by (simp add: t1 t2 t3 directives_python del: append.simps append_Cons append_Nil)
qed

lemma augment_prompt_javascript:
  "augment_prompt ''javascript'' prompt =
     prompt
     @ (if str_in ''graph'' (lower prompt) then ''\<newline>'' @ graph_javascript else [])
     @ (if str_in ''graph'' (lower prompt) \<or> str_in ''chart'' (lower prompt) \<or> str_in ''plot'' (lower prompt)
        then ''\<newline>'' @ chart_javascript else [])
     @ (if str_in ''table'' (lower prompt) then ''\<newline>'' @ table_javascript else [])"
proof -
  have t1: "\<And>a b. str_in ''table'' (lower (a @ ''\<newline>'' @ b)) = (str_in ''table'' (lower a) \<or> str_in ''table'' (lower b))"
    by (rule str_in_lower_line) simp_all
  have t2: "\<And>a b. str_in ''chart'' (lower (a @ ''\<newline>'' @ b)) = (str_in ''chart'' (lower a) \<or> str_in ''chart'' (lower b))"
    by (rule str_in_lower_line) simp_all
  have t3: "\<And>a b. str_in ''plot'' (lower (a @ ''\<newline>'' @ b)) = (str_in ''plot'' (lower a) \<or> str_in ''plot'' (lower b))"
    by (rule str_in_lower_line) simp_all
  show ?thesis
    unfolding augment_prompt_def Let_def
    by (simp add: t1 t2 t3 directives_javascript del: append.simps append_Cons append_Nil)
qed

lemma augment_prompt_other:
  "language \<noteq> ''python'' \<Longrightarrow> language \<noteq> ''javascript'' \<Longrightarrow> augment_prompt language prompt = prompt"
  by (simp add: augment_prompt_def)

lemma file_names_of_directives:
  "str_in ''Matplotlib'' graph_python \<and> str_in ''graph.png'' graph_python \<and>
   str_in ''chart.png'' chart_python \<and> str_in ''table.md'' table_python \<and>
   str_in ''graph.png'' graph_javascript \<and> str_in ''chart.png'' chart_javascript \<and>
   str_in ''table.html'' table_javascript"
  by (simp add: graph_python_def chart_python_def table_python_def graph_javascript_def
        chart_javascript_def table_javascript_def)

text \<open>
  Claim C6. The directives are chosen by testing the lower-cased prompt for the
  substrings \<open>graph\<close>, \<open>chart\<close> or \<open>plot\<close>, and \<open>table\<close>, wherever they stand,
  so that \<open>telegraph\<close> counts as \<open>graph\<close>. For the language \<open>python\<close> a prompt
  containing \<open>graph\<close> gets the Matplotlib directive naming \<open>graph.png\<close> appended, one
  containing \<open>chart\<close> or \<open>plot\<close> the directive naming \<open>chart.png\<close>, one containing
  \<open>table\<close> the directive naming \<open>table.md\<close>; for \<open>javascript\<close> the directives name
  \<open>graph.png\<close>, \<open>chart.png\<close> and \<open>table.html\<close>. The directive for a chart also
  follows a match of \<open>graph\<close>, since the directive for a graph contains \<open>plot\<close> or
  \<open>chart\<close>. Nothing else is appended, and for every other language the prompt stays
  as it is.
\<close>

theorem augmentation_by_substring:
  "augment_prompt language prompt =
     (if language = ''python'' then
        prompt
        @ (if str_in ''graph'' (lower prompt) then ''\<newline>'' @ graph_python else [])
        @ (if str_in ''graph'' (lower prompt) \<or> str_in ''chart'' (lower prompt)
              \<or> str_in ''plot'' (lower prompt)
           then ''\<newline>'' @ chart_python else [])
        @ (if str_in ''table'' (lower prompt) then ''\<newline>'' @ table_python else [])
      else if language = ''javascript'' then
        prompt
        @ (if str_in ''graph'' (lower prompt) then ''\<newline>'' @ graph_javascript else [])
        @ (if str_in ''graph'' (lower prompt) \<or> str_in ''chart'' (lower prompt)
              \<or> str_in ''plot'' (lower prompt)
           then ''\<newline>'' @ chart_javascript else [])
        @ (if str_in ''table'' (lower prompt) then ''\<newline>'' @ table_javascript else [])
      else prompt)
   \<and> str_in word text = (\<exists>before after. text = before @ word @ after)
   \<and> lower (before @ ''TeleGraph'' @ after) = lower before @ ''telegraph'' @ lower after
   \<and> str_in ''graph'' (lower (before @ ''telegraph'' @ after))
   \<and> str_in ''Matplotlib'' graph_python \<and> str_in ''graph.png'' graph_python
   \<and> str_in ''chart.png'' chart_python \<and> str_in ''table.md'' table_python
   \<and> str_in ''graph.png'' graph_javascript \<and> str_in ''chart.png'' chart_javascript
   \<and> str_in ''table.html'' table_javascript"
proof -
  have a: "augment_prompt language prompt =
     (if language = ''python'' then
        prompt
        @ (if str_in ''graph'' (lower prompt) then ''\<newline>'' @ graph_python else [])
        @ (if str_in ''graph'' (lower prompt) \<or> str_in ''chart'' (lower prompt)
              \<or> str_in ''plot'' (lower prompt)
           then ''\<newline>'' @ chart_python else [])
        @ (if str_in ''table'' (lower prompt) then ''\<newline>'' @ table_python else [])
      else if language = ''javascript'' then
        prompt
        @ (if str_in ''graph'' (lower prompt) then ''\<newline>'' @ graph_javascript else [])
        @ (if str_in ''graph'' (lower prompt) \<or> str_in ''chart'' (lower prompt)
              \<or> str_in ''plot'' (lower prompt)
           then ''\<newline>'' @ chart_javascript else [])
        @ (if str_in ''table'' (lower prompt) then ''\<newline>'' @ table_javascript else [])
      else prompt)"
  proof (cases "language = ''python''")
    case True
    then show ?thesis by (simp add: augment_prompt_python)
  next
    case False
    show ?thesis
    proof (cases "language = ''javascript''")
      case True
      then show ?thesis by (simp add: augment_prompt_javascript)
    next
      case no: False
      then show ?thesis using False augment_prompt_other[of language prompt] by simp
    qed
  qed
  have b: "str_in word text = (\<exists>before after. text = before @ word @ after)"
    by (rule str_in_iff)
  have c: "lower (before @ ''TeleGraph'' @ after) = lower before @ ''telegraph'' @ lower after"
    by (simp add: lower_def lower_char_def ascii_uppercase_def ascii_lowercase_def)
  have "lower (before @ ''telegraph'' @ after) = lower before @ ''telegraph'' @ lower after"
    by (simp add: lower_def lower_char_def ascii_uppercase_def ascii_lowercase_def)
  then have "lower (before @ ''telegraph'' @ after)
      = (lower before @ ''tele'') @ ''graph'' @ lower after" by simp
  then have d: "str_in ''graph'' (lower (before @ ''telegraph'' @ after))"
    unfolding str_in_iff by blast
  show ?thesis using a b c d file_names_of_directives by blast
qed

theorem augmentation_by_substring_witness:
  "augment_prompt ''python'' ''send a Telegraph''
     = ''send a Telegraph'' @ ''\<newline>'' @ graph_python @ ''\<newline>'' @ chart_python \<and>
   augment_prompt ''javascript'' telegraph_prompt
     = telegraph_prompt @ ''\<newline>'' @ graph_javascript @ ''\<newline>'' @ chart_javascript
         @ ''\<newline>'' @ table_javascript \<and>
   augment_prompt ''python'' ''list the files'' = ''list the files'' \<and>
   augment_prompt ''bash'' telegraph_prompt = telegraph_prompt"
proof -
  have l1: "lower ''send a Telegraph'' = ''send a telegraph''"
    by (simp add: lower_def lower_char_def ascii_uppercase_def ascii_lowercase_def)
  have l2: "lower telegraph_prompt = ''plot a chart and a table for the telegraph''"
    by (simp add: telegraph_prompt_def lower_def lower_char_def ascii_uppercase_def
          ascii_lowercase_def)
  have l3: "lower ''list the files'' = ''list the files''"
    by (simp add: lower_def lower_char_def ascii_uppercase_def ascii_lowercase_def)
  have a: "augment_prompt ''python'' ''send a Telegraph''
     = ''send a Telegraph'' @ ''\<newline>'' @ graph_python @ ''\<newline>'' @ chart_python"
    using augmentation_by_substring [of "''python''" "''send a Telegraph''"]
    unfolding l1 by simp
  have b: "augment_prompt ''javascript'' telegraph_prompt
     = telegraph_prompt @ ''\<newline>'' @ graph_javascript @ ''\<newline>'' @ chart_javascript
         @ ''\<newline>'' @ table_javascript"
    using augmentation_by_substring [of "''javascript''" telegraph_prompt]
    unfolding l2 by simp
  have c: "augment_prompt ''python'' ''list the files'' = ''list the files''"
    using augmentation_by_substring [of "''python''" "''list the files''"]
    unfolding l3 by simp
  have d: "augment_prompt ''bash'' telegraph_prompt = telegraph_prompt"
    using augmentation_by_substring [of "''bash''" telegraph_prompt] by simp
  show ?thesis using a b c d by simp
qed

section \<open>Execution\<close>















section \<open>The parameters of a completion\<close>

lemma gpt_turbo_has_gpt: "str_in ''gpt-3.5-turbo'' m \<Longrightarrow> str_in ''gpt'' m"
proof -
  assume "str_in ''gpt-3.5-turbo'' m"
  then obtain a b where "m = a @ ''gpt-3.5-turbo'' @ b" by (auto simp: str_in_iff)
  then have "m = a @ ''gpt'' @ (''-3.5-turbo'' @ b)" by simp
  then show ?thesis unfolding str_in_iff by blast
qed

lemma huggingface_prefix_no_gpt: "str_in ''gpt'' (''huggingface/'' @ m) = str_in ''gpt'' m"
  by simp

lemma prefixed_model_not_turbo:
  "\<not> str_in ''gpt'' m \<Longrightarrow> \<not> str_in ''gpt-3.5-turbo'' (''huggingface/'' @ m)"
  using gpt_turbo_has_gpt[of "''huggingface/'' @ m"] huggingface_prefix_no_gpt[of m] by blast

lemma model_sent_turbo: "str_in ''gpt-3.5-turbo'' (model_sent m) = str_in ''gpt-3.5-turbo'' m"
  using gpt_turbo_has_gpt[of m] prefixed_model_not_turbo[of m]
  by (auto simp: model_sent_def)

lemma emitted_extract_content: "emitted (extract_content out) s = []"
  by (simp add: extract_content_def emitted_lift)

lemma emitted_generate_text:
  "emitted (generate_text env message chat_history temperature max_tokens cfg_values) s =
     (case config_parameters env temperature max_tokens cfg_values of
        Inl e \<Rightarrow> []
      | Inr (t, n) \<Rightarrow>
          if str_in ''gpt-3.5-turbo'' (INTERPRRETER_MODEL s) then
            [Environ_set ''OPENAI_API_KEY'' ''Ignore the Key.'',
             Completion \<lparr>req_model = model_sent (INTERPRRETER_MODEL s),
                         req_messages = get_prompt s message chat_history,
                         req_temperature = 0.1, req_max_tokens = 2048,
                         req_api_base = Some heaven_api_base,
                         req_custom_llm_provider = Some ''openai''\<rparr>]
          else
            [Completion \<lparr>req_model = model_sent (INTERPRRETER_MODEL s),
                         req_messages = get_prompt s message chat_history,
                         req_temperature = t, req_max_tokens = n,
                         req_api_base = None, req_custom_llm_provider = None\<rparr>])"
proof (cases "config_parameters env temperature max_tokens cfg_values")
  case (Inl e)
  then show ?thesis
    by (simp add: generate_text_def emitted_def bind_def lift_apply)
next
  case (Inr p)
  obtain t n where p: "p = (t, n)" by (cases p)
  define s1 where "s1 = s\<lparr>INTERPRRETER_MODEL := model_sent (INTERPRRETER_MODEL s)\<rparr>"
  have upd: "(\<lambda>s. if \<not> str_in ''huggingface/'' (INTERPRRETER_MODEL s) \<and> \<not> str_in ''gpt'' (INTERPRRETER_MODEL s)
                then (Return (), s\<lparr>INTERPRRETER_MODEL := ''huggingface/'' @ INTERPRRETER_MODEL s\<rparr>)
                else (Return (), s)) s = (Return (), s1)"
    by (simp add: s1_def model_sent_def)
  have tr: "trace s1 = trace s" by (simp add: s1_def)
  have m1: "INTERPRRETER_MODEL s1 = model_sent (INTERPRRETER_MODEL s)" by (simp add: s1_def)
  have rest: "\<And>m. steady m \<Longrightarrow> trace (snd (bind m extract_content s1)) = trace s @ emitted m s1"
  proof -
    fix m :: "json prog"
    assume st: "steady m"
    have "emitted (bind m extract_content) s1
            = emitted m s1 @ (case m s1 of (Return x, s2) \<Rightarrow> emitted (extract_content x) s2 | (Raise e, s2) \<Rightarrow> [])"
      by (rule emitted_bind[OF st steady_extract_content])
    then have "emitted (bind m extract_content) s1 = emitted m s1"
      by (simp add: emitted_extract_content split: prod.splits result.splits)
    moreover have "steady (bind m extract_content)"
      by (intro steady_bind st steady_extract_content)
    ultimately show "trace (snd (bind m extract_content s1)) = trace s @ emitted m s1"
      using trace_emitted[of "bind m extract_content" s1] tr by simp
  qed
  show ?thesis
  proof (cases "str_in ''gpt-3.5-turbo'' (INTERPRRETER_MODEL s)")
    case True
    then have turbo: "str_in ''gpt-3.5-turbo'' (model_sent (INTERPRRETER_MODEL s))"
      by (simp add: model_sent_turbo)
    let ?r = "\<lparr>req_model = model_sent (INTERPRRETER_MODEL s),
               req_messages = get_prompt s message chat_history,
               req_temperature = 0.1, req_max_tokens = 2048,
               req_api_base = Some heaven_api_base,
               req_custom_llm_provider = Some ''openai''\<rparr>"
    let ?m = "bind (emit (Environ_set ''OPENAI_API_KEY'' ''Ignore the Key.''))
                (\<lambda>_. call (Completion ?r) (completion env ?r))"
    have st: "steady ?m" by (intro steady_bind steady_emit steady_call)
    have em: "emitted ?m s1 = [Environ_set ''OPENAI_API_KEY'' ''Ignore the Key.'', Completion ?r]"
    proof -
      have e1: "emit (Environ_set ''OPENAI_API_KEY'' ''Ignore the Key.'') s1
                  = (Return (), s1\<lparr>trace := trace s1 @ [Environ_set ''OPENAI_API_KEY'' ''Ignore the Key.'']\<rparr>)"
        by (simp add: emit_def)
      show ?thesis
        by (simp add: emitted_bind[OF steady_emit steady_call] emitted_emit emitted_call e1)
    qed
    have "generate_text env message chat_history temperature max_tokens cfg_values s
            = bind ?m extract_content s1"
      using Inr p upd turbo m1
      by (simp add: generate_text_def bind_def lift_apply reading_apply Let_def)
    then show ?thesis
      using rest[OF st] em Inr p True by (simp add: emitted_def)
  next
    case False
    then have turbo: "\<not> str_in ''gpt-3.5-turbo'' (model_sent (INTERPRRETER_MODEL s))"
      by (simp add: model_sent_turbo)
    let ?r = "\<lparr>req_model = model_sent (INTERPRRETER_MODEL s),
               req_messages = get_prompt s message chat_history,
               req_temperature = t, req_max_tokens = n,
               req_api_base = None, req_custom_llm_provider = None\<rparr>"
    let ?m = "call (Completion ?r) (completion env ?r)"
    have st: "steady ?m" by (rule steady_call)
    have em: "emitted ?m s1 = [Completion ?r]" by (simp add: emitted_call)
    have "generate_text env message chat_history temperature max_tokens cfg_values s
            = bind ?m extract_content s1"
      using Inr p upd turbo m1
      by (simp add: generate_text_def bind_def lift_apply reading_apply Let_def)
    then show ?thesis
      using rest[OF st] em Inr p False by (simp add: emitted_def)
  qed
qed

lemma config_parameters_absent:
  "config_parameters env t0 n0 None = Inr (t0, n0)" "config_parameters env t0 n0 (Some []) = Inr (t0, n0)"
  by (simp_all add: config_parameters_def)

lemma config_parameters_present:
  "c \<noteq> [] \<Longrightarrow>
     (config_parameters env t0 n0 (Some c) = Inr (t, n)) =
       ((case map_of c ''temperature'' of None \<Rightarrow> t = t0 | Some v \<Rightarrow> py_float env v = Some t) \<and>
        (case map_of c ''max_tokens'' of None \<Rightarrow> n = n0 | Some w \<Rightarrow> py_int env w = Some n))"
  by (auto simp: config_parameters_def split: option.splits)

lemma generate_text_unreadable:
  "config_parameters env t0 n0 cfg = Inl e \<Longrightarrow>
     generate_text env message chat_history t0 n0 cfg s = (Raise e, s)"
  by (simp add: generate_text_def bind_def lift_apply)

lemma config_parameters_unreadable:
  "c \<noteq> [] \<Longrightarrow> map_of c ''temperature'' = Some v \<Longrightarrow> py_float env v = None \<Longrightarrow>
     config_parameters env t0 n0 (Some c)
       = Inl (Exn ''ValueError'' (''could not convert string to float: '' @ v))"
  "c \<noteq> [] \<Longrightarrow> map_of c ''temperature'' = None \<or>
       (\<exists>v t. map_of c ''temperature'' = Some v \<and> py_float env v = Some t) \<Longrightarrow>
     map_of c ''max_tokens'' = Some w \<Longrightarrow> py_int env w = None \<Longrightarrow>
     config_parameters env t0 n0 (Some c)
       = Inl (Exn ''ValueError'' (''invalid literal for int() with base 10: '' @ w))"
  by (auto simp: config_parameters_def)

text \<open>
  Claim C5, as the code has it. \<open>generate_text\<close> first reads the configuration: the
  temperature and the token limit are the defaults 0.1 and 1024 when the configuration
  is missing or empty or lacks the key, and the value read by \<open>float\<close> or \<open>int\<close>
  otherwise. When a value cannot be read, \<open>ValueError\<close> leaves \<open>generate_text\<close> and
  the completion is not called, whatever the model. When the values can be read, the
  completion is called once: with these values for a model name that does not contain
  \<open>gpt-3.5-turbo\<close>, and with the temperature 0.1 and the limit 2048 for a model name
  that contains it.
\<close>

theorem completion_parameters:
  "(\<not> str_in ''gpt-3.5-turbo'' (INTERPRRETER_MODEL s) \<longrightarrow>
      config_parameters env 0.1 1024 cfg = Inr (t, n) \<longrightarrow>
      emitted (generate_text env message chat_history 0.1 1024 cfg) s =
        [Completion \<lparr>req_model = model_sent (INTERPRRETER_MODEL s),
                     req_messages = get_prompt s message chat_history,
                     req_temperature = t, req_max_tokens = n,
                     req_api_base = None, req_custom_llm_provider = None\<rparr>])
   \<and> (str_in ''gpt-3.5-turbo'' (INTERPRRETER_MODEL s) \<longrightarrow>
      config_parameters env 0.1 1024 cfg = Inr (t, n) \<longrightarrow>
      emitted (generate_text env message chat_history 0.1 1024 cfg) s =
        [Environ_set ''OPENAI_API_KEY'' ''Ignore the Key.'',
         Completion \<lparr>req_model = model_sent (INTERPRRETER_MODEL s),
                     req_messages = get_prompt s message chat_history,
                     req_temperature = 0.1, req_max_tokens = 2048,
                     req_api_base = Some heaven_api_base,
                     req_custom_llm_provider = Some ''openai''\<rparr>])
   \<and> (config_parameters env 0.1 1024 cfg = Inl e \<longrightarrow>
        generate_text env message chat_history 0.1 1024 cfg s = (Raise e, s) \<and>
        emitted (generate_text env message chat_history 0.1 1024 cfg) s = [])
   \<and> config_parameters env 0.1 1024 None = Inr (0.1, 1024)
   \<and> config_parameters env 0.1 1024 (Some []) = Inr (0.1, 1024)
   \<and> (c \<noteq> [] \<longrightarrow>
        (config_parameters env 0.1 1024 (Some c) = Inr (t, n)) =
          ((case map_of c ''temperature'' of None \<Rightarrow> t = 0.1 | Some v \<Rightarrow> py_float env v = Some t) \<and>
           (case map_of c ''max_tokens'' of None \<Rightarrow> n = 1024 | Some w \<Rightarrow> py_int env w = Some n)))
   \<and> (c \<noteq> [] \<longrightarrow> map_of c ''temperature'' = Some v \<longrightarrow> py_float env v = None \<longrightarrow>
        config_parameters env 0.1 1024 (Some c)
          = Inl (Exn ''ValueError'' (''could not convert string to float: '' @ v)))
   \<and> (c \<noteq> [] \<longrightarrow>
        map_of c ''temperature'' = None \<or>
          (\<exists>v t. map_of c ''temperature'' = Some v \<and> py_float env v = Some t) \<longrightarrow>
        map_of c ''max_tokens'' = Some w \<longrightarrow> py_int env w = None \<longrightarrow>
        config_parameters env 0.1 1024 (Some c)
          = Inl (Exn ''ValueError'' (''invalid literal for int() with base 10: '' @ w)))"
proof -
  have u: "config_parameters env 0.1 1024 cfg = Inl e \<longrightarrow>
        generate_text env message chat_history 0.1 1024 cfg s = (Raise e, s) \<and>
        emitted (generate_text env message chat_history 0.1 1024 cfg) s = []"
    by (simp add: generate_text_unreadable emitted_def)
  have v1: "c \<noteq> [] \<longrightarrow> map_of c ''temperature'' = Some v \<longrightarrow> py_float env v = None \<longrightarrow>
        config_parameters env 0.1 1024 (Some c)
          = Inl (Exn ''ValueError'' (''could not convert string to float: '' @ v))"
    using config_parameters_unreadable(1) by blast
  have v2: "c \<noteq> [] \<longrightarrow>
        map_of c ''temperature'' = None \<or>
          (\<exists>v t. map_of c ''temperature'' = Some v \<and> py_float env v = Some t) \<longrightarrow>
        map_of c ''max_tokens'' = Some w \<longrightarrow> py_int env w = None \<longrightarrow>
        config_parameters env 0.1 1024 (Some c)
          = Inl (Exn ''ValueError'' (''invalid literal for int() with base 10: '' @ w))"
    using config_parameters_unreadable(2) by blast
  show ?thesis
    using u v1 v2
    by (simp add: emitted_generate_text config_parameters_absent config_parameters_present)
qed

lemma demo_parameters:
  "config_parameters demo_env 0.1 1024 (config_values demo_state) = Inr (7 / 10, 256)"
  by (simp add: config_parameters_def demo_env_def demo_state_def)

text \<open>
  The configuration asks for 0.7 and 256; the call for the model \<open>gpt-3.5-turbo\<close>
  carries 0.1 and 2048.
\<close>

theorem config_ignored_counterexample:
  "config_parameters demo_env 0.1 1024 (config_values demo_state) = Inr (7 / 10, 256) \<and>
   emitted (generate_text demo_env ''list files'' [] 0.1 1024 (config_values demo_state))
           (demo_state\<lparr>INTERPRRETER_MODEL := ''gpt-3.5-turbo''\<rparr>) =
     [Environ_set ''OPENAI_API_KEY'' ''Ignore the Key.'',
      Completion \<lparr>req_model = ''gpt-3.5-turbo'',
                  req_messages = get_prompt demo_state ''list files'' [],
                  req_temperature = 0.1, req_max_tokens = 2048,
                  req_api_base = Some heaven_api_base,
                  req_custom_llm_provider = Some ''openai''\<rparr>]"
proof -
  have g: "get_prompt (demo_state\<lparr>INTERPRRETER_MODEL := ''gpt-3.5-turbo''\<rparr>) ''list files'' []
             = get_prompt demo_state ''list files'' []"
    by (simp add: get_prompt_def)
  show ?thesis
    by (simp add: emitted_generate_text demo_parameters model_sent_def g)
qed

theorem completion_parameters_witness:
  "emitted (generate_text demo_env ''list files'' [] 0.1 1024 (config_values demo_state)) demo_state =
     [Completion \<lparr>req_model = ''huggingface/codellama/CodeLlama-34b-Instruct-hf'',
                  req_messages = get_prompt demo_state ''list files'' [],
                  req_temperature = 7 / 10, req_max_tokens = 256,
                  req_api_base = None, req_custom_llm_provider = None\<rparr>] \<and>
   emitted (generate_text demo_env ''list files'' [] 0.1 1024 None)
           (demo_state\<lparr>INTERPRRETER_MODEL := ''gpt-3.5-turbo-16k''\<rparr>) =
     [Environ_set ''OPENAI_API_KEY'' ''Ignore the Key.'',
      Completion \<lparr>req_model = ''gpt-3.5-turbo-16k'',
                  req_messages = get_prompt demo_state ''list files'' [],
                  req_temperature = 0.1, req_max_tokens = 2048,
                  req_api_base = Some heaven_api_base,
                  req_custom_llm_provider = Some ''openai''\<rparr>] \<and>
   config_parameters demo_env 0.1 1024 (Some [(''max_tokens'', ''256'')]) = Inr (0.1, 256) \<and>
   generate_text demo_env ''list files'' [] 0.1 1024 (Some [(''temperature'', ''abc'')])
                 (demo_state\<lparr>INTERPRRETER_MODEL := ''gpt-3.5-turbo''\<rparr>)
     = (Raise (Exn ''ValueError'' ''could not convert string to float: abc''),
        demo_state\<lparr>INTERPRRETER_MODEL := ''gpt-3.5-turbo''\<rparr>)"
proof -
  have m: "\<not> str_in ''gpt-3.5-turbo'' (INTERPRRETER_MODEL demo_state)"
    "model_sent (INTERPRRETER_MODEL demo_state) = ''huggingface/codellama/CodeLlama-34b-Instruct-hf''"
    by (simp_all add: demo_state_def model_sent_def)
  have a: "emitted (generate_text demo_env ''list files'' [] 0.1 1024 (config_values demo_state)) demo_state =
     [Completion \<lparr>req_model = ''huggingface/codellama/CodeLlama-34b-Instruct-hf'',
                  req_messages = get_prompt demo_state ''list files'' [],
                  req_temperature = 7 / 10, req_max_tokens = 256,
                  req_api_base = None, req_custom_llm_provider = None\<rparr>]"
    using completion_parameters
            [where s = demo_state and env = demo_env and cfg = "config_values demo_state"
               and t = "7 / 10" and n = 256 and message = "''list files''" and chat_history = "[]"]
          m demo_parameters
    by simp
  have g: "get_prompt (demo_state\<lparr>INTERPRRETER_MODEL := ''gpt-3.5-turbo-16k''\<rparr>) ''list files'' []
             = get_prompt demo_state ''list files'' []"
    by (simp add: get_prompt_def)
  have t: "str_in ''gpt-3.5-turbo'' (INTERPRRETER_MODEL (demo_state\<lparr>INTERPRRETER_MODEL := ''gpt-3.5-turbo-16k''\<rparr>))"
    "model_sent (INTERPRRETER_MODEL (demo_state\<lparr>INTERPRRETER_MODEL := ''gpt-3.5-turbo-16k''\<rparr>)) = ''gpt-3.5-turbo-16k''"
    by (simp_all add: model_sent_def)
  have b: "emitted (generate_text demo_env ''list files'' [] 0.1 1024 None)
           (demo_state\<lparr>INTERPRRETER_MODEL := ''gpt-3.5-turbo-16k''\<rparr>) =
     [Environ_set ''OPENAI_API_KEY'' ''Ignore the Key.'',
      Completion \<lparr>req_model = ''gpt-3.5-turbo-16k'',
                  req_messages = get_prompt demo_state ''list files'' [],
                  req_temperature = 0.1, req_max_tokens = 2048,
                  req_api_base = Some heaven_api_base,
                  req_custom_llm_provider = Some ''openai''\<rparr>]"
    using completion_parameters
            [where s = "demo_state\<lparr>INTERPRRETER_MODEL := ''gpt-3.5-turbo-16k''\<rparr>" and env = demo_env
               and cfg = None and t = "0.1" and n = 1024
               and message = "''list files''" and chat_history = "[]"]
          t g
    by simp
  have c: "config_parameters demo_env 0.1 1024 (Some [(''max_tokens'', ''256'')]) = Inr (0.1, 256)"
    using completion_parameters
            [where env = demo_env and c = "[(''max_tokens'', ''256'')]" and t = "0.1" and n = 256]
    by (simp add: demo_env_def)
  have u: "config_parameters demo_env 0.1 1024 (Some [(''temperature'', ''abc'')])
             = Inl (Exn ''ValueError'' ''could not convert string to float: abc'')"
    using completion_parameters
            [where env = demo_env and c = "[(''temperature'', ''abc'')]" and v = "''abc''"]
    by (simp add: demo_env_def)
  have d: "generate_text demo_env ''list files'' [] 0.1 1024 (Some [(''temperature'', ''abc'')])
                 (demo_state\<lparr>INTERPRRETER_MODEL := ''gpt-3.5-turbo''\<rparr>)
     = (Raise (Exn ''ValueError'' ''could not convert string to float: abc''),
        demo_state\<lparr>INTERPRRETER_MODEL := ''gpt-3.5-turbo''\<rparr>)"
    using completion_parameters
            [where env = demo_env and cfg = "Some [(''temperature'', ''abc'')]"
               and e = "Exn ''ValueError'' ''could not convert string to float: abc''"
               and s = "demo_state\<lparr>INTERPRRETER_MODEL := ''gpt-3.5-turbo''\<rparr>"
               and message = "''list files''" and chat_history = "[]"]
          u
    by simp
  show ?thesis using a b c d by simp
qed

section \<open>The order of a turn\<close>

subsection \<open>Places of events under sequencing\<close>

lemma stages_append: "stages (xs @ ys) = stages xs @ stages ys"
  by (induction xs) (simp_all split: option.splits)

lemma silent_runs_in: "silent m \<Longrightarrow> runs_in a b m"
  by (simp add: silent_def runs_in_def)

lemma runs_in_steady: "runs_in a b m \<Longrightarrow> steady m" by (simp add: runs_in_def)
lemma silent_steady: "silent m \<Longrightarrow> steady m" by (simp add: silent_def)

lemma runs_in_bind:
  assumes m: "runs_in a b m" and f: "\<And>x. runs_in b c (f x)" and ab: "a \<le> b" and bc: "b \<le> c"
  shows "runs_in a c (bind m f)"
  unfolding runs_in_def
proof (intro conjI allI)
  have sm: "steady m" using m by (rule runs_in_steady)
  have sf: "\<And>x. steady (f x)" using f by (rule runs_in_steady)
  show "steady (bind m f)" by (intro steady_bind sm sf)
  fix s
  obtain r s1 where ms: "m s = (r, s1)" by (cases "m s")
  define after where "after = (case r of Return x \<Rightarrow> emitted (f x) s1 | Raise e \<Rightarrow> [])"
  have em: "emitted (bind m f) s = emitted m s @ after"
    using emitted_bind[OF sm sf, where s = s] ms by (simp add: after_def split: result.splits)
  have p1: "sorted_wrt (<) (stages (emitted m s))" and
       q1: "\<forall>k \<in> set (stages (emitted m s)). a \<le> k \<and> k < b"
    using m by (simp_all add: runs_in_def)
  have p2: "sorted_wrt (<) (stages after)" and q2: "\<forall>k \<in> set (stages after). b \<le> k \<and> k < c"
    using f by (auto simp: after_def runs_in_def split: result.splits)
  show "sorted_wrt (<) (stages (emitted (bind m f) s))"
    unfolding em stages_append sorted_wrt_append using p1 p2 q1 q2 by fastforce
  show "\<forall>k \<in> set (stages (emitted (bind m f) s)). a \<le> k \<and> k < c"
    unfolding em stages_append using q1 q2 ab bc by fastforce
qed

lemma runs_in_try:
  assumes m: "runs_in a b m" and h: "\<And>e. runs_in b c (h e)" and ab: "a \<le> b" and bc: "b \<le> c"
  shows "runs_in a c (try_except m h)"
  unfolding runs_in_def
proof (intro conjI allI)
  have sm: "steady m" using m by (rule runs_in_steady)
  have sh: "\<And>e. steady (h e)" using h by (rule runs_in_steady)
  show "steady (try_except m h)" by (intro steady_try sm sh)
  fix s
  obtain r s1 where ms: "m s = (r, s1)" by (cases "m s")
  define after where
    "after = (case r of Return x \<Rightarrow> [] | Raise e \<Rightarrow> if is_Exception e then emitted (h e) s1 else [])"
  have em: "emitted (try_except m h) s = emitted m s @ after"
    using emitted_try[OF sm sh, where s = s] ms by (simp add: after_def split: result.splits)
  have p1: "sorted_wrt (<) (stages (emitted m s))" and
       q1: "\<forall>k \<in> set (stages (emitted m s)). a \<le> k \<and> k < b"
    using m by (simp_all add: runs_in_def)
  have p2: "sorted_wrt (<) (stages after)" and q2: "\<forall>k \<in> set (stages after). b \<le> k \<and> k < c"
    using h by (auto simp: after_def runs_in_def split: result.splits)
  show "sorted_wrt (<) (stages (emitted (try_except m h) s))"
    unfolding em stages_append sorted_wrt_append using p1 p2 q1 q2 by fastforce
  show "\<forall>k \<in> set (stages (emitted (try_except m h) s)). a \<le> k \<and> k < c"
    unfolding em stages_append using q1 q2 ab bc by fastforce
qed

lemma runs_in_nowhere: "runs_in a a m \<Longrightarrow> silent m"
  unfolding runs_in_def silent_def
proof (intro conjI allI)
  assume h: "steady m \<and> (\<forall>s. sorted_wrt (<) (stages (emitted m s)) \<and>
          (\<forall>k \<in> set (stages (emitted m s)). a \<le> k \<and> k < a))"
  then show "steady m" by simp
  fix s
  have "\<forall>k \<in> set (stages (emitted m s)). False" using h by fastforce
  then show "stages (emitted m s) = []" by (cases "stages (emitted m s)") auto
qed

lemma silent_bind: "silent m \<Longrightarrow> (\<And>x. silent (f x)) \<Longrightarrow> silent (bind m f)"
  by (rule runs_in_nowhere[of 0], rule runs_in_bind[of 0 0]) (simp_all add: silent_runs_in)

lemma silent_try: "silent m \<Longrightarrow> (\<And>e. silent (h e)) \<Longrightarrow> silent (try_except m h)"
  by (rule runs_in_nowhere[of 0], rule runs_in_try[of 0 0]) (simp_all add: silent_runs_in)

lemma silent_ret: "silent (ret x)" by (simp add: silent_def steady_ret emitted_ret)
lemma silent_raise: "silent (raise e)" by (simp add: silent_def steady_raise emitted_raise)
lemma silent_lift: "silent (lift v)" by (simp add: silent_def steady_lift emitted_lift)
lemma silent_emit: "stage ev = None \<Longrightarrow> silent (emit ev)"
  by (simp add: silent_def steady_emit emitted_emit)
lemma silent_call: "stage ev = None \<Longrightarrow> silent (call ev f)"
  by (simp add: silent_def steady_call emitted_call)
lemma silent_reading: "(\<And>x. silent (f x)) \<Longrightarrow> silent (reading fld f)"
  by (simp add: silent_def steady_def reading_def emitted_def)
lemma silent_if: "silent p \<Longrightarrow> silent q \<Longrightarrow> silent (if c then p else q)" by simp
lemma silent_state_if: "silent p \<Longrightarrow> silent q \<Longrightarrow> silent (\<lambda>s. if c s then p s else q s)"
  by (simp add: silent_def steady_def emitted_def)
lemma silent_let: "(\<And>x. silent (f x)) \<Longrightarrow> silent (let x = v in f x)" by simp
lemma silent_case_prod: "(\<And>a b. silent (f a b)) \<Longrightarrow> silent (case p of (a, b) \<Rightarrow> f a b)"
  by (cases p) simp
lemma silent_case_option:
  "silent n \<Longrightarrow> (\<And>x. silent (f x)) \<Longrightarrow> silent (case v of None \<Rightarrow> n | Some x \<Rightarrow> f x)"
  by (cases v) simp_all

lemma runs_in_reading: "(\<And>x. runs_in a b (f x)) \<Longrightarrow> runs_in a b (reading fld f)"
  by (simp add: runs_in_def steady_def reading_def emitted_def)
lemma runs_in_if: "runs_in a b p \<Longrightarrow> runs_in a b q \<Longrightarrow> runs_in a b (if c then p else q)" by simp
lemma runs_in_state_if:
  "runs_in a b p \<Longrightarrow> runs_in a b q \<Longrightarrow> runs_in a b (\<lambda>s. if c s then p s else q s)"
  by (simp add: runs_in_def steady_def emitted_def)
lemma runs_in_case_prod: "(\<And>x y. runs_in a b (f x y)) \<Longrightarrow> runs_in a b (case p of (x, y) \<Rightarrow> f x y)"
  by (cases p) simp
lemma runs_in_case_option:
  "runs_in a b n \<Longrightarrow> (\<And>x. runs_in a b (f x)) \<Longrightarrow> runs_in a b (case v of None \<Rightarrow> n | Some x \<Rightarrow> f x)"
  by (cases v) simp_all
lemma runs_in_call: "stage ev = Some k \<Longrightarrow> runs_in k (Suc k) (call ev f)"
  by (simp add: runs_in_def steady_call emitted_call)
lemma runs_in_input: "stage (Input p) = Some k \<Longrightarrow> runs_in k (Suc k) (input p)"
  by (simp add: runs_in_def steady_input emitted_input)
lemma runs_in_wider: "runs_in a b m \<Longrightarrow> a' \<le> a \<Longrightarrow> b \<le> b' \<Longrightarrow> runs_in a' b' m"
  by (fastforce simp: runs_in_def)

lemma silent_then: "silent m \<Longrightarrow> (\<And>x. runs_in a b (f x)) \<Longrightarrow> a \<le> b \<Longrightarrow> runs_in a b (bind m f)"
  by (rule runs_in_bind[of a a]) (simp_all add: silent_runs_in)
lemma then_silent: "runs_in a b m \<Longrightarrow> (\<And>x. silent (f x)) \<Longrightarrow> a \<le> b \<Longrightarrow> runs_in a b (bind m f)"
  by (rule runs_in_bind[of a b _ b]) (simp_all add: silent_runs_in)

subsection \<open>The places of the methods\<close>

lemma stage_simps:
  "stage (Input p) = (if p = execute_prompt then Some 2 else None)"
  "stage (Print t) = None" "stage (Print_exc e) = None" "stage (Display_code c) = None"
  "stage (Display_markdown_message t) = None" "stage (Os_remove f) = None"
  "stage (Subprocess_call args sh) = None" "stage (Environ_set k v) = None"
  "stage (Completion r) = None" "stage (Extract_code out a b skip) = None"
  "stage (Save_code name code) = Some 1"
  "stage (Execute_script code os) = Some 3" "stage (Execute_command code) = Some 3"
  "stage (Execute_code code language) = Some 3"
  "stage (Extract_package_name err language) = Some 4"
  "stage (Install_package pkg language) = Some 5"
  "stage (Save_history_json a1 a2 a3 a4 a5 a6 a7) = None"
  by (simp_all add: stage_def)

lemma main_prompt_stage: "stage (Input ''> '') = None"
  by (simp add: stage_simps execute_prompt_def)

lemma silent_os_remove: "silent (os_remove f)"
  unfolding silent_def
  by (intro conjI steady_os_remove allI) (simp add: emitted_def os_remove_def stage_simps)

lemma silent_open_resource_file: "silent (open_resource_file env f)"
  unfolding open_resource_file_def
  by (intro silent_try silent_reading silent_if silent_bind silent_call silent_ret silent_emit
        stage_simps)

lemma silent_remove_files: "silent (remove_files fs)"
proof (induction fs)
  case Nil
  show ?case by (simp add: silent_ret)
next
  case (Cons f fs)
  show ?case
    unfolding remove_files.simps
    by (intro silent_bind silent_try silent_reading silent_if silent_os_remove silent_ret
          silent_emit Cons stage_simps)
qed

lemma silent_clean_responses: "silent clean_responses"
  by (simp add: clean_responses_def silent_remove_files)

lemma silent_generate_text: "silent (generate_text env msg hist t n cfg)"
  by (auto simp: silent_def steady_generate_text emitted_generate_text stage_simps
        split: sum.splits)

lemma silent_handle_mode: "silent (handle_mode task os)"
  unfolding silent_def
  by (intro conjI steady_handle_mode allI)
     (simp add: emitted_def handle_mode_def bind_def ret_def
        handle_code_mode_def handle_script_mode_def handle_command_mode_def Let_def)

lemma silent_generate_code: "silent (generate_code env L task)"
  unfolding generate_code_def
  by (intro silent_bind silent_handle_mode silent_clean_responses silent_lift silent_reading
        silent_let silent_generate_text silent_call silent_if silent_emit silent_ret stage_simps)

lemma runs_in_save_generated_code: "runs_in 1 2 (save_generated_code env L code)"
  unfolding runs_in_def
  by (intro conjI steady_save_generated_code allI)
     (simp_all add: emitted_def save_generated_code_def call_def ret_def stage_simps
        split: prod.splits)

lemma runs_in_run_by_mode: "runs_in 3 4 (run_by_mode env code os)"
  unfolding runs_in_def
  by (intro conjI steady_run_by_mode allI)
     (simp_all add: emitted_def run_by_mode_def call_def ret_def stage_simps
        split: prod.splits)

lemma question_stage: "stage (Input execute_prompt) = Some 2" by (simp add: stage_simps)

lemma runs_in_execute_code: "runs_in 2 4 (execute_code env code os)"
  unfolding execute_code_def
proof (rule runs_in_bind[of 2 3])
  show "runs_in 2 3 (reading EXECUTE_CODE (\<lambda>auto. if auto then ret ''y'' else input execute_prompt))"
    by (intro runs_in_reading runs_in_if silent_runs_in silent_ret
          runs_in_input[OF question_stage, simplified])
  fix execute
  show "runs_in 3 4 (if lower execute = ''y''
          then try_except (run_by_mode env code os) (\<lambda>exception. ret (None, Some (exn_str exception)))
          else ret (None, None))"
    by (intro runs_in_if runs_in_try[of 3 4 _ 4] runs_in_run_by_mode silent_runs_in silent_ret)
      simp_all
qed simp_all

lemma silent_show_result: "silent (show_result out err)"
  unfolding show_result_def
  by (intro silent_case_option silent_if silent_emit silent_ret stage_simps)

lemma runs_in_install_package_on_error: "runs_in 4 6 (install_package_on_error env err)"
  unfolding install_package_on_error_def
proof (intro runs_in_case_option runs_in_if runs_in_reading)
  show "runs_in 4 6 (ret ())" by (intro silent_runs_in silent_ret)
  fix e language
  show "runs_in 4 6 (ret ())" by (intro silent_runs_in silent_ret)
  show "runs_in 4 6 (bind (call (Extract_package_name e language) (pi_extract_package_name env e language))
          (\<lambda>package_name. case package_name of None \<Rightarrow> ret ()
             | Some name \<Rightarrow> if name \<noteq> [] then call (Install_package name language)
                   (pi_install_package env name language) else ret ()))"
  proof (rule runs_in_bind[of 4 5])
    show "runs_in 4 5 (call (Extract_package_name e language) (pi_extract_package_name env e language))"
      using runs_in_call[of "Extract_package_name e language" 4] by (simp add: stage_simps)
    fix package_name
    show "runs_in 5 6 (case package_name of None \<Rightarrow> ret ()
             | Some name \<Rightarrow> if name \<noteq> [] then call (Install_package name language)
                   (pi_install_package env name language) else ret ())"
      by (intro runs_in_case_option runs_in_if runs_in_call[of _ 5, simplified] silent_runs_in
            silent_ret stage_simps)
  qed simp_all
qed

lemma silent_open_resource_files: "silent (open_resource_files env)"
  unfolding open_resource_files_def
  by (intro silent_try silent_bind silent_open_resource_file silent_emit stage_simps)

lemma runs_in_run_extracted_code: "runs_in 1 6 (run_extracted_code env L code)"
  unfolding run_extracted_code_def
proof (rule runs_in_bind[of 1 2])
  show "runs_in 1 2 (save_generated_code env L code)" by (rule runs_in_save_generated_code)
  fix u :: unit
  show "runs_in 2 6 (bind (execute_code env code (v_os_name L))
          (\<lambda>(code_output, code_error).
              bind (show_result code_output code_error)
                (\<lambda>_. bind (install_package_on_error env code_error) (\<lambda>_. open_resource_files env))))"
  proof (rule runs_in_bind[of 2 4])
    show "runs_in 2 4 (execute_code env code (v_os_name L))" by (rule runs_in_execute_code)
    fix p :: "string option \<times> string option"
    show "runs_in 4 6 (case p of (code_output, code_error) \<Rightarrow>
              bind (show_result code_output code_error)
                (\<lambda>_. bind (install_package_on_error env code_error) (\<lambda>_. open_resource_files env)))"
      by (intro runs_in_case_prod silent_then silent_show_result then_silent
            runs_in_install_package_on_error silent_open_resource_files) simp_all
  qed simp_all
qed simp_all

lemma runs_in_loop_body: "runs_in 1 6 (loop_body env L task)"
  unfolding loop_body_def
  by (intro silent_then silent_generate_code runs_in_case_prod then_silent runs_in_if
        runs_in_run_extracted_code silent_runs_in silent_ret silent_reading silent_call
        stage_simps) simp_all

lemma runs_in_iteration: "runs_in 1 6 (iteration env L)"
  unfolding iteration_def
proof (rule runs_in_try[of 1 6 _ 6])
  show "runs_in 1 6 (bind (input ''> '') (\<lambda>task. if lower task \<in> set [''exit'', ''quit''] then ret False
          else bind (loop_body env L task) (\<lambda>_. ret True)))"
  proof (rule silent_then)
    show "silent (input ''> '')"
      by (simp add: silent_def steady_input emitted_input main_prompt_stage)
    fix task
    show "runs_in 1 6 (if lower task \<in> set [''exit'', ''quit''] then ret False
          else bind (loop_body env L task) (\<lambda>_. ret True))"
      by (intro runs_in_if then_silent runs_in_loop_body silent_runs_in silent_ret) simp
  qed simp
  fix e
  show "runs_in 6 6 (bind (emit (Print_exc e)) (\<lambda>_. raise e))"
    by (intro silent_runs_in silent_bind silent_emit silent_raise stage_simps)
qed simp_all

subsection \<open>One run, one lookup, one installation\<close>

lemma stage_kinds:
  "is_saving ev = (stage ev = Some 1)" "is_question ev = (stage ev = Some 2)"
  "is_execution ev = (stage ev = Some 3)" "is_resolution ev = (stage ev = Some 4)"
  "is_installation ev = (stage ev = Some 5)"
  by (cases ev; simp add: stage_def)+

lemma kinds_as_stages:
  "is_saving = (\<lambda>ev. stage ev = Some 1)" "is_question = (\<lambda>ev. stage ev = Some 2)"
  "is_execution = (\<lambda>ev. stage ev = Some 3)" "is_resolution = (\<lambda>ev. stage ev = Some 4)"
  "is_installation = (\<lambda>ev. stage ev = Some 5)"
  by (rule ext, simp add: stage_kinds)+

lemma no_stage_below:
  "\<forall>j \<in> set (stages evs). k < j \<Longrightarrow> filter (\<lambda>ev. stage ev = Some k) evs = []"
  by (induction evs) (auto split: option.splits)

lemma stage_at_most_once:
  "sorted_wrt (<) (stages evs) \<Longrightarrow> length (filter (\<lambda>ev. stage ev = Some k) evs) \<le> 1"
proof (induction evs)
  case Nil
  show ?case by simp
next
  case (Cons ev evs)
  show ?case
  proof (cases "stage ev")
    case None
    then show ?thesis using Cons by simp
  next
    case (Some j)
    then have s: "sorted_wrt (<) (stages evs)" and a: "\<forall>i \<in> set (stages evs). j < i"
      using Cons.prems by simp_all
    show ?thesis
    proof (cases "j = k")
      case True
      then have "filter (\<lambda>ev. stage ev = Some k) evs = []" using a no_stage_below by blast
      then show ?thesis using Some by simp
    next
      case False
      then show ?thesis using Some Cons.IH[OF s] by simp
    qed
  qed
qed

lemma stage_in_stages: "ev \<in> set evs \<Longrightarrow> stage ev = Some k \<Longrightarrow> k \<in> set (stages evs)"
  by (induction evs) (auto split: option.splits)

lemma stages_in_order:
  assumes "sorted_wrt (<) (stages (before @ ev # after))" "stage ev = Some a"
    "ev' \<in> set after" "stage ev' = Some b"
  shows "a < b"
proof -
  have "sorted_wrt (<) (a # stages after)"
    using assms(1,2) by (simp add: stages_append sorted_wrt_append)
  moreover have "b \<in> set (stages after)" using assms(3,4) by (rule stage_in_stages)
  ultimately show ?thesis by simp
qed

lemma runs_in_sorted: "runs_in a b m \<Longrightarrow> sorted_wrt (<) (stages (emitted m s))"
  by (simp add: runs_in_def)

text \<open>
  Claim C4. In every pass of the loop, from every state and with every collaborator, the
  extracted code is run at most once, the package an error names is looked up at most
  once and a package is installed at most once; no run follows the lookup or the
  installation in the same pass. The events counted are the ones the pass adds to the
  trace.
\<close>

theorem one_execution_per_turn:
  "length (filter is_execution (emitted (iteration env L) s)) \<le> 1 \<and>
   length (filter is_resolution (emitted (iteration env L) s)) \<le> 1 \<and>
   length (filter is_installation (emitted (iteration env L) s)) \<le> 1 \<and>
   \<not> (\<exists>before ev after ev'.
         emitted (iteration env L) s = before @ ev # after \<and>
         (is_resolution ev \<or> is_installation ev) \<and> ev' \<in> set after \<and> is_execution ev') \<and>
   trace (snd (iteration env L s)) = trace s @ emitted (iteration env L) s"
proof -
  have srt: "sorted_wrt (<) (stages (emitted (iteration env L) s))"
    using runs_in_iteration by (rule runs_in_sorted)
  have a: "length (filter is_execution (emitted (iteration env L) s)) \<le> 1"
    using stage_at_most_once[OF srt, of 3] by (simp add: kinds_as_stages)
  have b: "length (filter is_resolution (emitted (iteration env L) s)) \<le> 1"
    using stage_at_most_once[OF srt, of 4] by (simp add: kinds_as_stages)
  have c: "length (filter is_installation (emitted (iteration env L) s)) \<le> 1"
    using stage_at_most_once[OF srt, of 5] by (simp add: kinds_as_stages)
  have d: "\<not> (\<exists>before ev after ev'.
         emitted (iteration env L) s = before @ ev # after \<and>
         (is_resolution ev \<or> is_installation ev) \<and> ev' \<in> set after \<and> is_execution ev')"
  proof
    assume "\<exists>before ev after ev'.
         emitted (iteration env L) s = before @ ev # after \<and>
         (is_resolution ev \<or> is_installation ev) \<and> ev' \<in> set after \<and> is_execution ev'"
    then obtain before ev after ev' where
      e: "emitted (iteration env L) s = before @ ev # after" and
      k: "is_resolution ev \<or> is_installation ev" and
      m: "ev' \<in> set after" and x: "is_execution ev'"
      by blast
    have s2: "sorted_wrt (<) (stages (before @ ev # after))" using srt e by simp
    have x3: "stage ev' = Some 3" using x by (simp add: stage_kinds)
    from k show False
    proof
      assume "is_resolution ev"
      then have "stage ev = Some 4" by (simp add: stage_kinds)
      from stages_in_order[OF s2 this m x3] show False by simp
    next
      assume "is_installation ev"
      then have "stage ev = Some 5" by (simp add: stage_kinds)
      from stages_in_order[OF s2 this m x3] show False by simp
    qed
  qed
  have e: "trace (snd (iteration env L s)) = trace s @ emitted (iteration env L) s"
    by (rule trace_emitted[OF steady_iteration])
  show ?thesis using a b c d e by blast
qed

subsection \<open>A turn with a missing module\<close>

lemma demo_prompt_plain: "augment_prompt ''python'' demo_prompt = demo_prompt"
proof -
  have l: "lower demo_prompt = ''generate the code in python language for this task 'fetch a page for operating system: linux'' @ [CHR 0x27] @ ''.''"
    by (simp add: demo_prompt_def lower_def lower_char_def ascii_uppercase_def ascii_lowercase_def)
  show ?thesis unfolding augment_prompt_python l by simp
qed

lemma demo_handle_mode:
  "CODE_MODE s \<Longrightarrow> INTERPRETER_LANGUAGE s = ''python'' \<Longrightarrow>
   handle_mode ''fetch a page'' ''Linux'' s
     = (Return (Some demo_prompt), s\<lparr>history := history s @ [(''fetch a page'', demo_prompt)]\<rparr>)"
  by (simp add: handle_mode_def handle_code_mode_def bind_def ret_def demo_prompt_def Let_def)

lemma demo_turn:
  "emitted (iteration missing_module_env demo_locals)
     (demo_state\<lparr>EXECUTE_CODE := True, stdin := [''fetch a page'']\<rparr>) =
   [Input ''> '',
    Completion \<lparr>req_model = ''huggingface/codellama/CodeLlama-34b-Instruct-hf'',
                req_messages = get_prompt demo_state demo_prompt [],
                req_temperature = 7 / 10, req_max_tokens = 256,
                req_api_base = None, req_custom_llm_provider = None\<rparr>,
    Extract_code (JStr ''print(1)'') backticks backticks False,
    Save_code ''output/code_generated_12:00:00.py'' ''print(1)'',
    Execute_code ''print(1)'' ''python'',
    Display_markdown_message (''Error: '' @ missing_module_example),
    Extract_package_name missing_module_example ''python'',
    Install_package ''requests'' ''python'',
    Save_history_json ''fetch a page'' ''Code'' ''Linux'' ''python'' demo_prompt ''print(1)''
      ''huggingface/codellama/CodeLlama-34b-Instruct-hf'']"
  apply (simp add: emitted_def iteration_def try_except_def bind_def input_def demo_state_def
      lower_def lower_char_def ascii_uppercase_def ascii_lowercase_def ret_def)
  apply (simp add: loop_body_def generate_code_def bind_def demo_handle_mode demo_locals_def
      clean_responses_def files_to_remove_def try_except_def reading_def ret_def lift_apply
      demo_prompt_plain)
  apply (simp add: generate_text_def bind_def lift_apply reading_def config_parameters_def
      missing_module_env_def demo_env_def call_def Let_def extract_content_def demo_response_def
      ret_def get_prompt_def)
  apply (simp add: run_extracted_code_def save_generated_code_def execute_code_def run_by_mode_def
      show_result_def install_package_on_error_def open_resource_files_def open_resource_file_def
      bind_def call_def ret_def reading_def try_except_def emit_def error_messages_def
      missing_module_example_def lower_def lower_char_def ascii_uppercase_def ascii_lowercase_def
      missing_module_env_def demo_env_def)
  done

theorem one_execution_per_turn_witness:
  "filter is_execution (emitted (iteration missing_module_env demo_locals)
       (demo_state\<lparr>EXECUTE_CODE := True, stdin := [''fetch a page'']\<rparr>))
     = [Execute_code ''print(1)'' ''python''] \<and>
   filter is_resolution (emitted (iteration missing_module_env demo_locals)
       (demo_state\<lparr>EXECUTE_CODE := True, stdin := [''fetch a page'']\<rparr>))
     = [Extract_package_name missing_module_example ''python''] \<and>
   filter is_installation (emitted (iteration missing_module_env demo_locals)
       (demo_state\<lparr>EXECUTE_CODE := True, stdin := [''fetch a page'']\<rparr>))
     = [Install_package ''requests'' ''python'']"
  using one_execution_per_turn
          [of missing_module_env demo_locals
              "demo_state\<lparr>EXECUTE_CODE := True, stdin := [''fetch a page'']\<rparr>"]
  by (simp add: demo_turn)

section \<open>Saving the generated code\<close>

lemma runs_in_after_save:
  "runs_in 2 6 (bind (execute_code env code os)
          (\<lambda>(code_output, code_error).
              bind (show_result code_output code_error)
                (\<lambda>_. bind (install_package_on_error env code_error) (\<lambda>_. open_resource_files env))))"
proof (rule runs_in_bind[of 2 4])
  show "runs_in 2 4 (execute_code env code os)" by (rule runs_in_execute_code)
  fix p :: "string option \<times> string option"
  show "runs_in 4 6 (case p of (code_output, code_error) \<Rightarrow>
            bind (show_result code_output code_error)
              (\<lambda>_. bind (install_package_on_error env code_error) (\<lambda>_. open_resource_files env)))"
    by (intro runs_in_case_prod silent_then silent_show_result then_silent
          runs_in_install_package_on_error silent_open_resource_files) simp_all
qed simp_all

lemma no_saving_from: "runs_in a b m \<Longrightarrow> 1 < a \<Longrightarrow> filter is_saving (emitted m s) = []"
proof -
  assume r: "runs_in a b m" and a: "1 < a"
  have "\<forall>j \<in> set (stages (emitted m s)). 1 < j" using r a by (fastforce simp: runs_in_def)
  then show ?thesis unfolding kinds_as_stages by (rule no_stage_below)
qed

lemma silent_no_kind:
  assumes "silent m"
  shows "filter is_saving (emitted m s) = []" "filter is_question (emitted m s) = []"
    "filter is_execution (emitted m s) = []"
proof -
  have e: "stages (emitted m s) = []" using assms by (simp add: silent_def)
  then have "\<And>k. \<forall>j \<in> set (stages (emitted m s)). k < j" by simp
  then show "filter is_saving (emitted m s) = []" "filter is_question (emitted m s) = []"
    "filter is_execution (emitted m s) = []"
    unfolding kinds_as_stages by (simp_all add: no_stage_below)
qed

lemma emitted_save_generated_code:
  "emitted (save_generated_code env L code) s =
     (if INTERPRETER_LANGUAGE s = ''javascript'' \<and> SAVE_CODE s then
        [Save_code (''output/code_generated_'' @ v_current_time L @ ''.js'') code]
      else if INTERPRETER_LANGUAGE s = ''python'' \<and> SAVE_CODE s then
        [Save_code (''output/code_generated_'' @ v_current_time L @ ''.py'') code]
      else [])"
  by (simp add: emitted_def save_generated_code_def call_def ret_def split: prod.splits)

lemma silent_save_history:
  "silent (reading INTERPRETER_LANGUAGE (\<lambda>language. reading INTERPRRETER_MODEL (\<lambda>interpreter_model.
       call (Save_history_json task mode os language prompt code interpreter_model)
            (um_save_history_json env task mode os language prompt code interpreter_model))))"
  by (intro silent_reading silent_call stage_simps)

lemma emitted_run_extracted_code:
  "\<exists>rest. emitted (run_extracted_code env L code) s
            = emitted (save_generated_code env L code) s @ rest \<and> filter is_saving rest = []"
proof -
  let ?A = "bind (execute_code env code (v_os_name L))
          (\<lambda>(code_output, code_error).
              bind (show_result code_output code_error)
                (\<lambda>_. bind (install_package_on_error env code_error) (\<lambda>_. open_resource_files env)))"
  have sa: "steady ?A" using runs_in_after_save by (rule runs_in_steady)
  have ss: "steady (save_generated_code env L code)" by (rule steady_save_generated_code)
  define rest where "rest = (case save_generated_code env L code s of
      (Return x, s2) \<Rightarrow> emitted ?A s2 | (Raise e, s2) \<Rightarrow> [])"
  have "emitted (run_extracted_code env L code) s = emitted (save_generated_code env L code) s @ rest"
    unfolding run_extracted_code_def rest_def
    by (rule emitted_bind[OF ss sa])
  moreover have "filter is_saving rest = []"
  proof -
    obtain r2 s2 where b: "save_generated_code env L code s = (r2, s2)"
      by (cases "save_generated_code env L code s")
    have "\<And>st. filter is_saving (emitted ?A st) = []"
      by (rule no_saving_from[OF runs_in_after_save]) simp
    then show ?thesis unfolding rest_def b by (cases r2) simp_all
  qed
  ultimately show ?thesis by blast
qed

text \<open>
  Claim C8, as the code has it. When the code of a turn has been generated (extracted
  and, with the display flag, displayed), the events of the rest of the turn begin with
  the saving of the code, and nothing is saved anywhere else in the turn: no event of
  saving, no question whether to run and no run comes before it. The code is saved only
  when it is not empty, the save flag is set and
  the active language is \<open>javascript\<close> (to \<open>output/code_generated_<time>.js\<close>) or
  \<open>python\<close> (to \<open>output/code_generated_<time>.py\<close>), \<open><time>\<close> being the time read
  when \<open>interpreter_main\<close> started; for every other active language nothing is saved.
\<close>

theorem code_saved_before_execution:
  assumes gen: "generate_code env L task s = (Return (prompt, code), s1)"
  shows "(\<exists>rest.
            emitted (loop_body env L task) s
              = emitted (generate_code env L task) s
                @ (if code = [] then []
                   else if INTERPRETER_LANGUAGE s1 = ''javascript'' \<and> SAVE_CODE s then
                     [Save_code (''output/code_generated_'' @ v_current_time L @ ''.js'') code]
                   else if INTERPRETER_LANGUAGE s1 = ''python'' \<and> SAVE_CODE s then
                     [Save_code (''output/code_generated_'' @ v_current_time L @ ''.py'') code]
                   else [])
                @ rest
            \<and> filter is_saving rest = [])
         \<and> filter is_saving (emitted (generate_code env L task) s) = []
         \<and> filter is_question (emitted (generate_code env L task) s) = []
         \<and> filter is_execution (emitted (generate_code env L task) s) = []"
proof -
  let ?H = "\<lambda>prompt code. reading INTERPRETER_LANGUAGE (\<lambda>language. reading INTERPRRETER_MODEL (\<lambda>interpreter_model.
       call (Save_history_json task (v_command_mode L) (v_os_name L) language prompt code interpreter_model)
            (um_save_history_json env task (v_command_mode L) (v_os_name L) language prompt code
               interpreter_model)))"
  let ?B = "if code \<noteq> [] then run_extracted_code env L code else ret ()"
  let ?K = "\<lambda>(prompt, extracted_code).
       bind (if extracted_code \<noteq> [] then run_extracted_code env L extracted_code else ret ())
         (\<lambda>_. ?H prompt extracted_code)"
  have sg: "steady (generate_code env L task)" by (rule steady_generate_code)
  have sh: "\<And>p c. steady (?H p c)" using silent_save_history by (rule silent_steady)
  have sb: "steady ?B" by (intro steady_if steady_run_extracted_code steady_ret)
  have sk: "\<And>x. steady (?K x)"
    by (intro steady_case_prod steady_bind steady_if steady_run_extracted_code steady_ret sh)
  have save: "SAVE_CODE s1 = SAVE_CODE s"
    using steadyD[OF sg gen] by (simp add: frame_def)
  have e1: "emitted (loop_body env L task) s
      = emitted (generate_code env L task) s @ emitted (bind ?B (\<lambda>_. ?H prompt code)) s1"
    unfolding loop_body_def using emitted_bind[OF sg sk, where s = s] gen by simp
  define last where "last = (case ?B s1 of (Return x, s2) \<Rightarrow> emitted (?H prompt code) s2
      | (Raise e, s2) \<Rightarrow> [])"
  have e2: "emitted (bind ?B (\<lambda>_. ?H prompt code)) s1 = emitted ?B s1 @ last"
    unfolding last_def by (rule emitted_bind[OF sb sh])
  have l0: "filter is_saving last = []"
  proof -
    obtain r2 s2 where b: "?B s1 = (r2, s2)" by (cases "?B s1")
    have "\<And>st. filter is_saving (emitted (?H prompt code) st) = []"
      by (rule silent_no_kind(1)[OF silent_save_history])
    then show ?thesis unfolding last_def b by (cases r2) simp_all
  qed
  obtain rest where r: "emitted (run_extracted_code env L code) s1
            = emitted (save_generated_code env L code) s1 @ rest" "filter is_saving rest = []"
    using emitted_run_extracted_code by blast
  have ex: "\<exists>rest.
            emitted (loop_body env L task) s
              = emitted (generate_code env L task) s
                @ (if code = [] then []
                   else if INTERPRETER_LANGUAGE s1 = ''javascript'' \<and> SAVE_CODE s then
                     [Save_code (''output/code_generated_'' @ v_current_time L @ ''.js'') code]
                   else if INTERPRETER_LANGUAGE s1 = ''python'' \<and> SAVE_CODE s then
                     [Save_code (''output/code_generated_'' @ v_current_time L @ ''.py'') code]
                   else [])
                @ rest
            \<and> filter is_saving rest = []"
  proof (cases "code = []")
    case True
    then have "emitted (loop_body env L task) s = emitted (generate_code env L task) s @ [] @ last"
      using e1 e2 by (simp add: emitted_ret)
    then show ?thesis using True l0 by auto
  next
    case False
    then have "emitted (loop_body env L task) s
        = emitted (generate_code env L task) s
          @ emitted (save_generated_code env L code) s1 @ (rest @ last)"
      using e1 e2 r(1) by simp
    moreover have "filter is_saving (rest @ last) = []" using r(2) l0 by simp
    ultimately show ?thesis
      using False save unfolding emitted_save_generated_code by (intro exI[of _ "rest @ last"]) simp
  qed
  show ?thesis
    using ex silent_no_kind[OF silent_generate_code] by blast
qed

subsection \<open>A turn in Script mode\<close>

lemma lower_Linux: "lower ''Linux'' = ''linux''"
  by (simp add: lower_def lower_char_def ascii_uppercase_def ascii_lowercase_def)

lemma script_handle_mode:
  "\<not> CODE_MODE s \<Longrightarrow> SCRIPT_MODE s \<Longrightarrow>
   handle_mode ''list files'' ''Linux'' s
     = (Return (Some script_prompt), s\<lparr>INTERPRETER_LANGUAGE := ''bash''\<rparr>)"
  by (simp add: handle_mode_def handle_script_mode_def bind_def ret_def script_prompt_def Let_def
        lower_Linux language_map_def)

lemma script_generate_code:
  "generate_code demo_env script_locals ''list files'' script_state
     = (Return (script_prompt, ''print(1)''),
        script_state\<lparr>INTERPRETER_LANGUAGE := ''bash'',
                      INTERPRRETER_MODEL := ''huggingface/codellama/CodeLlama-34b-Instruct-hf'',
                      trace := [Completion \<lparr>req_model = ''huggingface/codellama/CodeLlama-34b-Instruct-hf'',
                                  req_messages = [(''system'', Some script_system_message),
                                     (''assistant'', Some ''Please generate code wrapped inside triple backticks known as codeblock.''),
                                     (''user'', Some script_prompt)],
                                  req_temperature = 7 / 10, req_max_tokens = 256,
                                  req_api_base = None, req_custom_llm_provider = None\<rparr>,
                                Extract_code (JStr ''print(1)'') backticks backticks False]\<rparr>)"
  apply (simp add: generate_code_def bind_def script_handle_mode script_state_def demo_state_def
      script_locals_def demo_locals_def clean_responses_def files_to_remove_def try_except_def reading_def ret_def
      lift_apply augment_prompt_other)
  apply (simp add: generate_text_def bind_def lift_apply reading_def config_parameters_def
      demo_env_def call_def Let_def extract_content_def demo_response_def ret_def get_prompt_def)
  done

lemma script_turn:
  "emitted (loop_body demo_env script_locals ''list files'') script_state =
     [Completion \<lparr>req_model = ''huggingface/codellama/CodeLlama-34b-Instruct-hf'',
                  req_messages = [(''system'', Some script_system_message),
                     (''assistant'', Some ''Please generate code wrapped inside triple backticks known as codeblock.''),
                     (''user'', Some script_prompt)],
                  req_temperature = 7 / 10, req_max_tokens = 256,
                  req_api_base = None, req_custom_llm_provider = None\<rparr>,
      Extract_code (JStr ''print(1)'') backticks backticks False,
      Execute_script ''print(1)'' ''Linux'',
      Display_code ''1'',
      Save_history_json ''list files'' ''Script'' ''Linux'' ''bash'' script_prompt ''print(1)''
        ''huggingface/codellama/CodeLlama-34b-Instruct-hf'']"
  apply (simp add: emitted_def loop_body_def bind_def script_generate_code)
  apply (simp add: run_extracted_code_def save_generated_code_def execute_code_def run_by_mode_def
      show_result_def install_package_on_error_def open_resource_files_def open_resource_file_def
      bind_def call_def ret_def reading_def try_except_def emit_def error_messages_def
      lower_def lower_char_def ascii_uppercase_def ascii_lowercase_def
      script_state_def demo_state_def demo_env_def script_locals_def demo_locals_def)
  done

text \<open>
  In Script mode on Linux the active language is \<open>bash\<close>: with the save flag set and
  code extracted, the script is run and nothing is saved.
\<close>

theorem script_code_not_saved_counterexample:
  "SAVE_CODE script_state \<and>
   fst (generate_code demo_env script_locals ''list files'' script_state)
     = Return (script_prompt, ''print(1)'') \<and>
   INTERPRETER_LANGUAGE (snd (generate_code demo_env script_locals ''list files'' script_state))
     = ''bash'' \<and>
   filter is_saving (emitted (loop_body demo_env script_locals ''list files'') script_state) = [] \<and>
   filter is_execution (emitted (loop_body demo_env script_locals ''list files'') script_state)
     = [Execute_script ''print(1)'' ''Linux'']"
  by (simp add: script_turn script_generate_code) (simp add: script_state_def demo_state_def)

lemma demo_generate_code:
  "generate_code demo_env demo_locals ''fetch a page'' (demo_state\<lparr>EXECUTE_CODE := True\<rparr>)
     = (Return (demo_prompt, ''print(1)''),
        demo_state\<lparr>EXECUTE_CODE := True,
                    history := [(''fetch a page'', demo_prompt)],
                    INTERPRRETER_MODEL := ''huggingface/codellama/CodeLlama-34b-Instruct-hf'',
                    trace := [Completion \<lparr>req_model = ''huggingface/codellama/CodeLlama-34b-Instruct-hf'',
                                req_messages = get_prompt demo_state demo_prompt [],
                                req_temperature = 7 / 10, req_max_tokens = 256,
                                req_api_base = None, req_custom_llm_provider = None\<rparr>,
                              Extract_code (JStr ''print(1)'') backticks backticks False]\<rparr>)"
  apply (simp add: generate_code_def bind_def demo_handle_mode demo_state_def
      demo_locals_def clean_responses_def files_to_remove_def try_except_def reading_def ret_def
      lift_apply demo_prompt_plain)
  apply (simp add: generate_text_def bind_def lift_apply reading_def config_parameters_def
      demo_env_def call_def Let_def extract_content_def demo_response_def ret_def get_prompt_def)
  done

theorem code_saved_before_execution_witness:
  "generate_code demo_env demo_locals ''fetch a page'' (demo_state\<lparr>EXECUTE_CODE := True\<rparr>)
     = (Return (demo_prompt, ''print(1)''),
        demo_state\<lparr>EXECUTE_CODE := True,
                    history := [(''fetch a page'', demo_prompt)],
                    INTERPRRETER_MODEL := ''huggingface/codellama/CodeLlama-34b-Instruct-hf'',
                    trace := [Completion \<lparr>req_model = ''huggingface/codellama/CodeLlama-34b-Instruct-hf'',
                                req_messages = get_prompt demo_state demo_prompt [],
                                req_temperature = 7 / 10, req_max_tokens = 256,
                                req_api_base = None, req_custom_llm_provider = None\<rparr>,
                              Extract_code (JStr ''print(1)'') backticks backticks False]\<rparr>) \<and>
   (\<exists>rest. emitted (loop_body demo_env demo_locals ''fetch a page'') (demo_state\<lparr>EXECUTE_CODE := True\<rparr>)
             = emitted (generate_code demo_env demo_locals ''fetch a page'')
                       (demo_state\<lparr>EXECUTE_CODE := True\<rparr>)
               @ [Save_code ''output/code_generated_12:00:00.py'' ''print(1)''] @ rest \<and>
           filter is_saving rest = [])"
  using code_saved_before_execution [OF demo_generate_code] demo_generate_code
  by (simp add: demo_state_def demo_locals_def)

section \<open>The history in memory\<close>

lemma history_outside_code_mode:
  "\<not> CODE_MODE s \<Longrightarrow> history (snd (interpreter_main env s)) = history s"
  using steady_interpreter_main [of env] by (auto simp: steady_def frame_def)

lemma script_first_turn:
  "iteration demo_env script_locals (script_state\<lparr>stdin := [''list files'', ''exit''], trace := evs\<rparr>)
     = (Return True,
        script_state\<lparr>INTERPRETER_LANGUAGE := ''bash'',
                      INTERPRRETER_MODEL := ''huggingface/codellama/CodeLlama-34b-Instruct-hf'',
                      stdin := [''exit''],
                      trace := evs @
                        [Input ''> '',
                         Completion \<lparr>req_model = ''huggingface/codellama/CodeLlama-34b-Instruct-hf'',
                            req_messages = [(''system'', Some script_system_message),
                               (''assistant'', Some ''Please generate code wrapped inside triple backticks known as codeblock.''),
                               (''user'', Some script_prompt)],
                            req_temperature = 7 / 10, req_max_tokens = 256,
                            req_api_base = None, req_custom_llm_provider = None\<rparr>,
                         Extract_code (JStr ''print(1)'') backticks backticks False,
                         Execute_script ''print(1)'' ''Linux'',
                         Display_code ''1'',
                         Save_history_json ''list files'' ''Script'' ''Linux'' ''bash'' script_prompt
                           ''print(1)'' ''huggingface/codellama/CodeLlama-34b-Instruct-hf'']\<rparr>)"
  apply (simp add: iteration_def try_except_def bind_def input_def script_state_def demo_state_def
      lower_def lower_char_def ascii_uppercase_def ascii_lowercase_def ret_def)
  apply (simp add: loop_body_def generate_code_def bind_def script_handle_mode
      script_locals_def demo_locals_def
      clean_responses_def files_to_remove_def try_except_def reading_def ret_def lift_apply
      augment_prompt_other)
  apply (simp add: generate_text_def bind_def lift_apply reading_def config_parameters_def
      demo_env_def call_def Let_def extract_content_def demo_response_def
      ret_def get_prompt_def)
  apply (simp add: run_extracted_code_def save_generated_code_def execute_code_def run_by_mode_def
      show_result_def install_package_on_error_def open_resource_files_def open_resource_file_def
      bind_def call_def ret_def reading_def try_except_def emit_def error_messages_def
      lower_def lower_char_def ascii_uppercase_def ascii_lowercase_def
      demo_env_def)
  done

lemma exit_turn:
  "stdin s = [''exit''] \<Longrightarrow>
   iteration env L s = (Return False, s\<lparr>stdin := [], trace := trace s @ [Input ''> '']\<rparr>)"
  by (simp add: iteration_def try_except_def bind_def input_def ret_def
      lower_def lower_char_def ascii_uppercase_def ascii_lowercase_def)

lemma script_session_run:
  "interpreter_main demo_env script_session
     = (Return (),
        script_state\<lparr>INTERPRETER_LANGUAGE := ''bash'',
                      INTERPRRETER_MODEL := ''huggingface/codellama/CodeLlama-34b-Instruct-hf'',
                      stdin := [],
                      trace :=
                        [Print ''Code Interpreter - v1.3'',
                         Display_code (''OS: 'Linux', Language: 'python', Mode: 'Script' Model: 'codellama/CodeLlama-34b-Instruct-hf'' @ [CHR 0x27]),
                         Input ''> '',
                         Completion \<lparr>req_model = ''huggingface/codellama/CodeLlama-34b-Instruct-hf'',
                            req_messages = [(''system'', Some script_system_message),
                               (''assistant'', Some ''Please generate code wrapped inside triple backticks known as codeblock.''),
                               (''user'', Some script_prompt)],
                            req_temperature = 7 / 10, req_max_tokens = 256,
                            req_api_base = None, req_custom_llm_provider = None\<rparr>,
                         Extract_code (JStr ''print(1)'') backticks backticks False,
                         Execute_script ''print(1)'' ''Linux'',
                         Display_code ''1'',
                         Save_history_json ''list files'' ''Script'' ''Linux'' ''bash'' script_prompt
                           ''print(1)'' ''huggingface/codellama/CodeLlama-34b-Instruct-hf'',
                         Input ''> '']\<rparr>)"
proof -
  let ?L = "\<lparr>v_os_name = ''Linux'', v_command_mode = ''Script'', v_start_sep = backticks,
             v_end_sep = backticks, v_skip_first_line = False, v_current_time = ''12:00:00''\<rparr>"
  have L: "?L = script_locals" by (simp add: script_locals_def demo_locals_def)
  let ?banner = "[Print ''Code Interpreter - v1.3'',
                  Display_code (''OS: 'Linux', Language: 'python', Mode: 'Script' Model: 'codellama/CodeLlama-34b-Instruct-hf'' @ [CHR 0x27])]"
  have start: "interpreter_main demo_env script_session
     = interpreter_loop demo_env ?L
         (script_state\<lparr>stdin := [''list files'', ''exit''], trace := ?banner\<rparr>)"
    by (simp add: interpreter_main_def bind_def emit_def reading_def lift_apply ret_def
          script_session_def script_state_def demo_state_def demo_env_def mode_name_def
          interpreter_version_def)
  show ?thesis
    unfolding start L
    apply (subst interpreter_loop.simps)
    apply (simp only: script_first_turn prod.case result.case if_True)
    apply (subst interpreter_loop.simps)
    apply (subst exit_turn)
     apply (simp add: script_state_def)
    apply (simp add: script_state_def demo_state_def)
    done
qed

text \<open>
  Claim C1 at a session in Script mode: the user submits the task \<open>list files\<close>, then
  \<open>exit\<close>. The turn completes, the script is run and the session returns, and the
  history in memory is as empty as it was. Only \<open>handle_code_mode\<close> appends to it:
  \<open>handle_mode\<close> leaves the history alone in Script mode and adds the entry of the
  task in Code mode.
\<close>

theorem script_session_history:
  "fst (interpreter_main demo_env script_session) = Return () \<and>
   filter is_execution (trace (snd (interpreter_main demo_env script_session)))
     = [Execute_script ''print(1)'' ''Linux''] \<and>
   stdin script_session = [''list files'', ''exit''] \<and>
   history script_session = [] \<and>
   history (snd (interpreter_main demo_env script_session)) = [] \<and>
   history (snd (handle_mode ''list files'' ''Linux'' script_state)) = [] \<and>
   history (snd (handle_mode ''list files'' ''Linux'' demo_state)) = [(''list files'',
      ''Generate the code in python language for this task 'list files for Operating System: Linux'' @ [CHR 0x27] @ ''.'')]"
  apply (simp add: script_session_run)
  apply (simp add: script_session_def script_state_def demo_state_def handle_mode_def
      handle_code_mode_def handle_script_mode_def bind_def ret_def Let_def)
  done

end
